theory Spec2Isabelle
  imports Complex_Main
begin

section \<open>Errors\<close>

text \<open>
  Every exception of the Python source is a value. The two annual-length assertions of
  \<open>Wea.from_values\<close> build their message with the \<open>%\<close> operator from a timestep, an
  expected count, the name of the series and a provided count, optionally followed by the
  sentence "Did you forget to set the timestep to n?"; the message is kept as the record of
  these arguments instead of the formatted text.
\<close>

record length_message =
  msg_timestep :: int
  msg_expected :: int
  msg_series :: string
  msg_provided :: nat
  msg_hint :: "int option"

datatype assert_msg = Msg string | AnnualLength length_message

datatype error =
    AssertionError assert_msg
  | ZeroDivisionError
  | IndexError
  | KeyError string
  | ValueError string
  | MissingOpticalDepth string nat
  | TypeError string
  | AttributeError string
  | UnboundLocalError string
  | UnsupportedUnitError string
  | IOError string

text \<open>
  \<open>MissingOpticalDepth name i\<close> is the \<open>ValueError\<close> that \<open>Wea.from_stat_file\<close> raises with the
  text "Missing optical depth data for name at month i".
\<close>

text \<open>Sequencing of fallible steps: the first exception ends the computation.\<close>

definition bind :: "error + 'a \<Rightarrow> ('a \<Rightarrow> error + 'b) \<Rightarrow> error + 'b" where
  "bind m f = (case m of Inl e \<Rightarrow> Inl e | Inr x \<Rightarrow> f x)"

text \<open>
  The subscript \<open>xs[i]\<close> on a list or tuple of length \<open>n\<close>: an index from \<open>0\<close> to \<open>n - 1\<close>
  reads from the front, an index from \<open>-n\<close> to \<open>-1\<close> reads the element \<open>n + i\<close>, and any
  other index raises.
\<close>

definition getitem :: "'a list \<Rightarrow> int \<Rightarrow> error + 'a" where
  "getitem xs i =
     (if 0 \<le> i \<and> i < int (length xs) then Inr (xs ! nat i)
      else if - int (length xs) \<le> i \<and> i < 0 then Inr (xs ! nat (int (length xs) + i))
      else Inl IndexError)"

section \<open>Temperature (ladybug/types/temperature.py)\<close>

text \<open>Python floats are modelled as real numbers.\<close>

definition C_to_F :: "real \<Rightarrow> real" where
  "C_to_F v = v * 9 / 5 + 32"

definition C_to_K :: "real \<Rightarrow> real" where
  "C_to_K v = v + 273.15"

definition F_to_C :: "real \<Rightarrow> real" where
  "F_to_C v = (v - 32) * 5 / 9"

definition K_to_C :: "real \<Rightarrow> real" where
  "K_to_C v = v - 273.15"

definition units :: "string list" where
  "units = [''C'', ''F'', ''K'']"

text \<open>
  The methods \<open>_X_to_Y\<close> that the class \<open>Temperature\<close> defines, looked up by the pair of
  unit names.
\<close>

definition converter :: "string \<Rightarrow> string \<Rightarrow> (real \<Rightarrow> real) option" where
  "converter a b =
     (if a = ''C'' \<and> b = ''F'' then Some C_to_F
      else if a = ''C'' \<and> b = ''K'' then Some C_to_K
      else if a = ''F'' \<and> b = ''C'' then Some F_to_C
      else if a = ''K'' \<and> b = ''C'' then Some K_to_C
      else None)"

text \<open>
  Modelled from the spec: \<open>DataTypeBase._to_unit_base\<close> (ladybug/types/_base.py) is not
  among the sources. The specification gives \<open>convert(values, to_unit, from_unit)\<close> as a
  pure function over a sequence of numbers that fails with \<open>UnsupportedUnitError\<close> if either
  unit is not legal for the quantity, every legal unit having a conversion to and from the
  canonical unit. So the values go from \<open>from_unit\<close> to the base unit, unless they are in it
  already, and from the base unit to \<open>unit\<close>, by the methods \<open>_X_to_Y\<close> of the class.
\<close>

definition to_unit_base ::
  "string \<Rightarrow> real list \<Rightarrow> string \<Rightarrow> string \<Rightarrow> error + real list" where
  "to_unit_base base_unit values unit from_unit =
     bind (if from_unit = base_unit then Inr values
           else if from_unit \<notin> set units then Inl (UnsupportedUnitError from_unit)
           else (case converter from_unit base_unit of
                   None \<Rightarrow> Inl (AttributeError from_unit)
                 | Some f \<Rightarrow> Inr (map f values)))
       (\<lambda>vs. if unit = base_unit then Inr vs
             else if unit \<notin> set units then Inl (UnsupportedUnitError unit)
             else (case converter base_unit unit of
                     None \<Rightarrow> Inl (AttributeError unit)
                   | Some f \<Rightarrow> Inr (map f vs)))"

text \<open>\<open>Temperature.to_unit(values, unit, from_unit)\<close>: the values in \<open>unit\<close>, given in \<open>from_unit\<close>.\<close>

definition to_unit :: "real list \<Rightarrow> string \<Rightarrow> string \<Rightarrow> error + real list" where
  "to_unit values unit from_unit = to_unit_base ''C'' values unit from_unit"

section \<open>Samples, series and the collaborators of the irradiance engine\<close>

text \<open>
  \<open>DataPoint(value, datetime, standard, nickname)\<close>: a number with its timestamp. The
  timestamp type \<open>'t\<close> belongs to the calendar collaborator (ladybug/dt.py).
\<close>

record 't DataPoint =
  dp_value :: real
  dp_datetime :: 't
  dp_standard :: string
  dp_nickname :: string

text \<open>
  Modelled from the spec: \<open>DataCollection\<close> (ladybug/datacollection.py) is not among the
  sources. The specification gives a Series as an ordered sequence of timestamped samples
  that carries exactly one Header: \<open>append\<close> adds a sample at the end, \<open>len\<close> counts the
  samples, iteration yields them in order and indexing is that of a sequence.
\<close>

record ('t, 'h) DataCollection =
  dc_header :: 'h
  dc_data :: "'t DataPoint list"

text \<open>What \<open>Sunpath.calculate_sun_from_date_time\<close> returns; angles in degrees.\<close>

record 't Sun =
  altitude :: real
  azimuth :: real
  sun_datetime :: 't

text \<open>
  The collaborators that wea.py imports and that are not among the sources are parameters:
  \<open>AnalysisPeriod(timestep=, is_leap_year=)\<close>, \<open>DateTime.from_moy\<close> and the attributes of a
  \<open>DateTime\<close>, \<open>Sunpath.from_location\<close>, the assignment \<open>sp.is_leap_year = ...\<close> and
  \<open>calculate_sun_from_date_time\<close>, and the builtin \<open>float\<close> applied to a string.

  The field \<open>Header\<close> is the call \<open>Header(analysis_period=, data_type=, unit=, location=)\<close>
  that wea.py makes in three places. It is a field so that the facts about the paths hold
  for every constructor; what the constructor of header.py does with this call is the
  definition \<open>Header_of_wea\<close> in the section on the header, and the concrete runs use it.

  A leap-year flag is \<open>Some True\<close>, \<open>Some False\<close> or \<open>None\<close> (Python's \<open>None\<close>, which
  \<open>Wea.from_json\<close> passes on when the key is absent).
\<close>

record ('loc, 't, 'sp, 'ap, 'h) collab =
  AnalysisPeriod :: "int \<Rightarrow> bool option \<Rightarrow> error + 'ap"
  Header :: "'ap \<Rightarrow> string \<Rightarrow> string \<Rightarrow> 'loc \<Rightarrow> error + 'h"
  from_moy :: "real \<Rightarrow> bool option \<Rightarrow> 't"
  dt_month :: "'t \<Rightarrow> int"
  dt_doy :: "'t \<Rightarrow> int"
  dt_hoy :: "'t \<Rightarrow> real"
  add_minute :: "'t \<Rightarrow> int \<Rightarrow> 't"
  Sunpath_from_location :: "'loc \<Rightarrow> 'sp"
  set_is_leap_year :: "'sp \<Rightarrow> bool option \<Rightarrow> 'sp"
  calculate_sun_from_date_time :: "'sp \<Rightarrow> 't \<Rightarrow> 't Sun"
  py_float :: "string \<Rightarrow> real option"

section \<open>The irradiance engine (ladybug/wea.py)\<close>

record ('loc, 't, 'h) Wea =
  location :: 'loc
  direct_normal_irradiance :: "('t, 'h) DataCollection"
  diffuse_horizontal_irradiance :: "('t, 'h) DataCollection"
  timestep :: int
  is_leap_year :: "bool option"

definition hr_count :: "bool option \<Rightarrow> int" where
  "hr_count leap = (if leap = Some True then 8760 + 24 else 8760)"

text \<open>
  The two setters. With \<open>from __future__ import division\<close> the operator \<open>/\<close> is true
  division, so the assertion compares the quotient of the length by the timestep with the
  hour count; dividing by a zero timestep raises.
\<close>

definition set_direct_normal_irradiance ::
  "('loc, 't, 'h) Wea \<Rightarrow> ('t, 'h) DataCollection \<Rightarrow> error + ('loc, 't, 'h) Wea" where
  "set_direct_normal_irradiance self data =
     (if timestep self = 0 then Inl ZeroDivisionError
      else if real (length (dc_data data)) / real_of_int (timestep self)
              = real_of_int (hr_count (is_leap_year self))
      then Inr (self\<lparr>direct_normal_irradiance := data\<rparr>)
      else Inl (AssertionError (Msg ''direct_normal_irradiance data must be annual.'')))"

definition set_diffuse_horizontal_irradiance ::
  "('loc, 't, 'h) Wea \<Rightarrow> ('t, 'h) DataCollection \<Rightarrow> error + ('loc, 't, 'h) Wea" where
  "set_diffuse_horizontal_irradiance self data =
     (if timestep self = 0 then Inl ZeroDivisionError
      else if real (length (dc_data data)) / real_of_int (timestep self)
              = real_of_int (hr_count (is_leap_year self))
      then Inr (self\<lparr>diffuse_horizontal_irradiance := data\<rparr>)
      else Inl (AssertionError (Msg ''diffuse_horizontal_irradiance data must be annual.'')))"

text \<open>
  \<open>Wea.__init__\<close>: \<open>timestep or 1\<close> replaces \<open>None\<close> and \<open>0\<close> by \<open>1\<close>; the timestep, the
  leap-year flag and the location are stored, and the two series are assigned through the
  setters. The object is a record, so the two series fields of the object under
  construction hold the arguments already before the setters have checked them; an object
  that fails a check is never returned.
\<close>

definition Wea_init ::
  "'loc \<Rightarrow> ('t, 'h) DataCollection \<Rightarrow> ('t, 'h) DataCollection \<Rightarrow> int option \<Rightarrow> bool option
     \<Rightarrow> error + ('loc, 't, 'h) Wea" where
  "Wea_init loc dnr dhr ts leap =
     (let ts1 = (case ts of None \<Rightarrow> 1 | Some n \<Rightarrow> if n = 0 then 1 else n);
          self = \<lparr>location = loc, direct_normal_irradiance = dnr,
                  diffuse_horizontal_irradiance = dhr, timestep = ts1, is_leap_year = leap\<rparr>
      in bind (set_direct_normal_irradiance self dnr)
           (\<lambda>self. set_diffuse_horizontal_irradiance self dhr))"

text \<open>\<open>Wea._get_datetimes\<close>: \<open>xrange\<close> of a non-positive number is empty.\<close>

definition get_datetimes ::
  "('loc, 't, 'sp, 'ap, 'h) collab \<Rightarrow> int \<Rightarrow> bool option \<Rightarrow> 't list" where
  "get_datetimes c ts leap =
     (let hr_count = (if leap = Some True then 8760 + 24 else 8760);
          adjust_time = (if ts = 1 then 30 else 0)
      in map (\<lambda>count. from_moy c (60 * real count / real_of_int ts + adjust_time) leap)
           [0..<nat (hr_count * ts)])"

definition get_empty_data_collections ::
  "('loc, 't, 'sp, 'ap, 'h) collab \<Rightarrow> 'loc \<Rightarrow> int \<Rightarrow> bool option
     \<Rightarrow> error + (('t, 'h) DataCollection \<times> ('t, 'h) DataCollection)" where
  "get_empty_data_collections c loc ts leap =
     bind (AnalysisPeriod c ts leap) (\<lambda>analysis_period.
     bind (Header c analysis_period ''Direct Normal Irradiance'' ''W/m2'' loc) (\<lambda>header_dnr.
     bind (Header c analysis_period ''Diffuse Horizontal Irradiance'' ''W/m2'' loc) (\<lambda>header_dhr.
     Inr (\<lparr>dc_header = header_dnr, dc_data = []\<rparr>, \<lparr>dc_header = header_dhr, dc_data = []\<rparr>))))"

text \<open>The two kinds of sample that the construction paths append.\<close>

definition dni_point :: "real \<Rightarrow> 't \<Rightarrow> 't DataPoint" where
  "dni_point v dt = \<lparr>dp_value = v, dp_datetime = dt, dp_standard = ''SI'',
                     dp_nickname = ''Direct Normal Irradiance''\<rparr>"

definition dhi_point :: "real \<Rightarrow> 't \<Rightarrow> 't DataPoint" where
  "dhi_point v dt = \<lparr>dp_value = v, dp_datetime = dt, dp_standard = ''SI'',
                     dp_nickname = ''Diffuse Horizontal Irradiance''\<rparr>"

definition append_all :: "('t, 'h) DataCollection \<Rightarrow> 't DataPoint list \<Rightarrow> ('t, 'h) DataCollection" where
  "append_all dc ps = dc\<lparr>dc_data := dc_data dc @ ps\<rparr>"

text \<open>
  \<open>Wea.from_values\<close>. The hint is added to the message before either assertion is
  evaluated, when the number of direct-normal values is a multiple of the hour count; both
  assertions format \<open>len(direct_normal_irradiance)\<close> as the provided count.
\<close>

definition from_values ::
  "('loc, 't, 'sp, 'ap, 'h) collab \<Rightarrow> 'loc \<Rightarrow> real list \<Rightarrow> real list \<Rightarrow> int \<Rightarrow> bool option
     \<Rightarrow> error + ('loc, 't, 'h) Wea" where
  "from_values c loc dni dhi ts leap =
     (let hint = (if int (length dni) mod hr_count leap = 0
                  then Some (int (length dni) div hr_count leap) else None);
          err_message = (\<lambda>name. AssertionError (AnnualLength
             \<lparr>msg_timestep = ts, msg_expected = ts * hr_count leap, msg_series = name,
              msg_provided = length dni, msg_hint = hint\<rparr>))
      in if ts = 0 then Inl ZeroDivisionError
         else if real (length dni) / real_of_int ts \<noteq> real_of_int (hr_count leap)
         then Inl (err_message ''direct normal irradiance'')
         else if real (length dhi) / real_of_int ts \<noteq> real_of_int (hr_count leap)
         then Inl (err_message ''diffuse_horizontal_irradiance'')
         else bind (get_empty_data_collections c loc ts leap) (\<lambda>(dnr, dhr).
              let dts = get_datetimes c ts leap;
                  rows = zip dni (zip dhi dts)
              in Wea_init loc
                   (append_all dnr (map (\<lambda>(dir_norm, diff_horiz, dt). dni_point dir_norm dt) rows))
                   (append_all dhr (map (\<lambda>(dir_norm, diff_horiz, dt). dhi_point diff_horiz dt) rows))
                   (Some ts) leap))"

text \<open>A loop that calls a fallible step on each element, in order, and collects the results.\<close>

fun mapM :: "('a \<Rightarrow> error + 'b) \<Rightarrow> 'a list \<Rightarrow> error + 'b list" where
  "mapM f [] = Inr []"
| "mapM f (x # xs) = bind (f x) (\<lambda>y. bind (mapM f xs) (\<lambda>ys. Inr (y # ys)))"

definition enumerate :: "'a list \<Rightarrow> (nat \<times> 'a) list" where
  "enumerate xs = zip [0..<length xs] xs"

subsection \<open>From a native irradiance file\<close>

text \<open>
  The readers of the other file formats, the sky models of ladybug/skymodel.py, the file
  system and the builtin \<open>int\<close> on a string are parameters too. \<open>read_lines\<close> gives the lines
  of a file, or \<open>None\<close> where \<open>os.path.isfile\<close> is false; \<open>Location_new\<close> stands for
  \<open>Location()\<close> followed by the assignments of city, latitude, longitude, time zone and
  elevation.
\<close>

record ('loc, 't, 'h) epw_data =
  epw_location :: 'loc
  direct_normal_radiation :: "('t, 'h) DataCollection"
  diffuse_horizontal_radiation :: "('t, 'h) DataCollection"

record 'loc stat_data =
  stat_location :: 'loc
  monthly_tau_beam :: "real option list"
  monthly_tau_diffuse :: "real option list"

record ('loc, 't, 'h) readers =
  read_lines :: "string \<Rightarrow> string list option"
  py_int :: "string \<Rightarrow> int option"
  Location_new :: "string \<Rightarrow> real \<Rightarrow> real \<Rightarrow> real \<Rightarrow> real \<Rightarrow> error + 'loc"
  EPW :: "string \<Rightarrow> error + ('loc, 't, 'h) epw_data"
  set_data_type_and_unit :: "'h \<Rightarrow> string \<Rightarrow> string \<Rightarrow> error + 'h"
  interpolate_data :: "('t, 'h) DataCollection \<Rightarrow> int \<Rightarrow> error + 't DataPoint list"
  STAT :: "string \<Rightarrow> error + 'loc stat_data"
  ashrae_revised_clear_sky ::
    "real list \<Rightarrow> real option \<Rightarrow> real option \<Rightarrow> error + (real list \<times> real list)"
  ashrae_clear_sky :: "real list \<Rightarrow> int \<Rightarrow> real \<Rightarrow> error + (real list \<times> real list)"
  zhang_huang_solar_split ::
    "real list \<Rightarrow> int list \<Rightarrow> real list \<Rightarrow> real list \<Rightarrow> real list \<Rightarrow> real list \<Rightarrow> real list
       \<Rightarrow> real list \<Rightarrow> bool \<Rightarrow> error + (real list \<times> real list)"

text \<open>\<open>str.split()\<close> without argument: the maximal runs of characters that are not whitespace.\<close>

definition is_space :: "char \<Rightarrow> bool" where
  "is_space ch = (ch \<in> set [CHR '' '', CHR 0x09, CHR 0x0A, CHR 0x0B, CHR 0x0C, CHR 0x0D])"

fun split_from :: "string \<Rightarrow> string \<Rightarrow> string list" where
  "split_from word [] = (if word = [] then [] else [rev word])"
| "split_from word (ch # rest) =
     (if is_space ch then (if word = [] then split_from [] rest else rev word # split_from [] rest)
      else split_from (ch # word) rest)"

definition split :: "string \<Rightarrow> string list" where
  "split line = split_from [] line"

fun join :: "string \<Rightarrow> string list \<Rightarrow> string" where
  "join sep [] = []"
| "join sep [w] = w"
| "join sep (w # ws) = w @ sep @ join sep ws"

definition startswith :: "string \<Rightarrow> string \<Rightarrow> bool" where
  "startswith s p = (take (length p) s = p)"

definition endswith :: "string \<Rightarrow> string \<Rightarrow> bool" where
  "endswith s p = (length p \<le> length s \<and> drop (length s - length p) s = p)"

text \<open>\<open>float(line.split()[-1])\<close> and \<open>int(line.split()[-1])\<close> on a header line.\<close>

definition last_float ::
  "('loc, 't, 'sp, 'ap, 'h) collab \<Rightarrow> string \<Rightarrow> error + real" where
  "last_float c line =
     bind (getitem (split line) (- 1)) (\<lambda>w.
       case py_float c w of None \<Rightarrow> Inl (ValueError w) | Some x \<Rightarrow> Inr x)"

definition last_int :: "('loc, 't, 'h) readers \<Rightarrow> string \<Rightarrow> error + int" where
  "last_int r line =
     bind (getitem (split line) (- 1)) (\<lambda>w.
       case py_int r w of None \<Rightarrow> Inl (ValueError w) | Some x \<Rightarrow> Inr x)"

text \<open>
  \<open>dirn, difh = [int(v) for v in line.split()[-2:]]\<close>: the last two words of a data line
  as integers; a line with fewer than two words cannot be unpacked.
\<close>

definition data_line :: "('loc, 't, 'h) readers \<Rightarrow> string \<Rightarrow> error + (real \<times> real)" where
  "data_line r line =
     (let ws = split line; vs = drop (length ws - 2) ws
      in bind (mapM (\<lambda>v. case py_int r v of None \<Rightarrow> Inl (ValueError v) | Some x \<Rightarrow> Inr x) vs)
           (\<lambda>ns. case ns of [dirn, difh] \<Rightarrow> Inr (real_of_int dirn, real_of_int difh)
                           | _ \<Rightarrow> Inl (ValueError ''not enough values to unpack'')))"

text \<open>\<open>readline\<close> on the \<open>i\<close>-th line of the file: the empty string at the end of the file.\<close>

definition readline :: "string list \<Rightarrow> nat \<Rightarrow> string" where
  "readline lines i = (if i < length lines then lines ! i else [])"

definition from_file ::
  "('loc, 't, 'sp, 'ap, 'h) collab \<Rightarrow> ('loc, 't, 'h) readers \<Rightarrow> string \<Rightarrow> int \<Rightarrow> bool option
     \<Rightarrow> error + ('loc, 't, 'h) Wea" where
  "from_file c r weafile ts leap =
     (case read_lines r weafile of
        None \<Rightarrow> Inl (AssertionError (Msg (''Failed to find '' @ weafile)))
      | Some lines \<Rightarrow>
         (let first_line = readline lines 0
          in if \<not> startswith first_line ''place''
             then Inl (AssertionError (Msg (''Failed to find place in header. '' @ weafile
                                              @ '' is not a valid wea file.'')))
             else
               bind (last_float c (readline lines 1)) (\<lambda>lat.
               bind (last_float c (readline lines 2)) (\<lambda>lon.
               bind (last_int r (readline lines 3)) (\<lambda>tz.
               bind (last_float c (readline lines 4)) (\<lambda>elevation.
               bind (Location_new r (join '' '' (tl (split first_line))) lat (- lon)
                       (real_of_int (- tz) / 15) elevation) (\<lambda>loc.
               bind (mapM (data_line r) (drop 6 lines)) (\<lambda>rows.
               from_values c loc (map fst rows) (map snd rows) ts leap))))))))"

subsection \<open>From an hourly observational weather file\<close>

text \<open>
  One step of the loop over the interpolated samples: the sun is computed at the timestamp
  of the direct-normal sample; when it is up the two interpolated samples are appended,
  otherwise two new samples of value \<open>0\<close>, each at the timestamp of its own interpolated
  sample.
\<close>

definition sun_up_pair ::
  "('loc, 't, 'sp, 'ap, 'h) collab \<Rightarrow> 'sp \<Rightarrow> 't DataPoint \<times> 't DataPoint
     \<Rightarrow> 't DataPoint \<times> 't DataPoint" where
  "sun_up_pair c sp = (\<lambda>(e_beam, e_diff).
     let sun = calculate_sun_from_date_time c sp (dp_datetime e_beam)
     in if altitude sun > 0 then (e_beam, e_diff)
        else (dni_point 0 (dp_datetime e_beam), dhi_point 0 (dp_datetime e_diff)))"

definition shift_30 ::
  "('loc, 't, 'sp, 'ap, 'h) collab \<Rightarrow> ('t, 'h) DataCollection \<Rightarrow> ('t, 'h) DataCollection" where
  "shift_30 c dc =
     dc\<lparr>dc_data := map (\<lambda>p. p\<lparr>dp_datetime := add_minute c (dp_datetime p) 30\<rparr>) (dc_data dc)\<rparr>"

definition from_epw_file ::
  "('loc, 't, 'sp, 'ap, 'h) collab \<Rightarrow> ('loc, 't, 'h) readers \<Rightarrow> string \<Rightarrow> int
     \<Rightarrow> error + ('loc, 't, 'h) Wea" where
  "from_epw_file c r epwfile ts =
     bind (EPW r epwfile) (\<lambda>epw.
     bind (set_data_type_and_unit r (dc_header (direct_normal_radiation epw))
             ''Direct Normal Irradiance'' ''W/m2'') (\<lambda>h_dn.
     bind (set_data_type_and_unit r (dc_header (diffuse_horizontal_radiation epw))
             ''Diffuse Horizontal Irradiance'' ''W/m2'') (\<lambda>h_dh.
     let direct_normal = (direct_normal_radiation epw)\<lparr>dc_header := h_dn\<rparr>;
         diffuse_horizontal = (diffuse_horizontal_radiation epw)\<lparr>dc_header := h_dh\<rparr>
     in bind
          (if ts \<noteq> 1 then
             bind (interpolate_data r direct_normal ts) (\<lambda>direct_norm_values.
             bind (interpolate_data r diffuse_horizontal ts) (\<lambda>diffuse_horiz_values.
             bind (get_empty_data_collections c (epw_location epw) ts (Some False)) (\<lambda>(dn, dh).
             let sp = Sunpath_from_location c (epw_location epw);
                 rows = map (sun_up_pair c sp) (zip direct_norm_values diffuse_horiz_values)
             in Inr (append_all dn (map fst rows), append_all dh (map snd rows)))))
           else Inr (shift_30 c direct_normal, shift_30 c diffuse_horizontal))
          (\<lambda>(direct_normal, diffuse_horizontal).
             Wea_init (epw_location epw) direct_normal diffuse_horizontal (Some ts) (Some False)))))"

subsection \<open>From the clear-sky models\<close>

text \<open>
  \<open>altitudes[sun.datetime.month - 1].append(sun.altitude)\<close> for every timestamp of the
  year, on twelve lists that start empty.
\<close>

fun bucket_altitudes ::
  "('loc, 't, 'sp, 'ap, 'h) collab \<Rightarrow> 'sp \<Rightarrow> 't list \<Rightarrow> real list list \<Rightarrow> error + real list list" where
  "bucket_altitudes c sp [] altitudes = Inr altitudes"
| "bucket_altitudes c sp (t_date # rest) altitudes =
     (let sun = calculate_sun_from_date_time c sp t_date
      in bind (getitem altitudes (dt_month c (sun_datetime sun) - 1)) (\<lambda>bucket.
         let i = dt_month c (sun_datetime sun) - 1;
             j = (if i < 0 then int (length altitudes) + i else i)
         in bucket_altitudes c sp rest (altitudes[nat j := bucket @ [altitude sun]])))"

text \<open>
  The inner loop over one month's results: each pair is stamped with \<open>dates[i_dt]\<close>, and
  \<open>i_dt\<close> is the number of samples appended so far.
\<close>

fun append_month ::
  "'t list \<Rightarrow> (real \<times> real) list \<Rightarrow> ('t, 'h) DataCollection \<times> ('t, 'h) DataCollection
     \<Rightarrow> error + (('t, 'h) DataCollection \<times> ('t, 'h) DataCollection)" where
  "append_month dates [] acc = Inr acc"
| "append_month dates ((e_beam, e_diff) # rest) (dn, dh) =
     bind (getitem dates (int (length (dc_data dn)))) (\<lambda>dt.
       append_month dates rest
         (append_all dn [dni_point e_beam dt], append_all dh [dhi_point e_diff dt]))"

text \<open>
  The loop over the months; \<open>model\<close> is the call of the sky model for the month of index
  \<open>i_mon\<close> with that month's altitudes.
\<close>

fun append_months ::
  "(nat \<Rightarrow> real list \<Rightarrow> error + (real list \<times> real list)) \<Rightarrow> 't list \<Rightarrow> (nat \<times> real list) list
     \<Rightarrow> ('t, 'h) DataCollection \<times> ('t, 'h) DataCollection
     \<Rightarrow> error + (('t, 'h) DataCollection \<times> ('t, 'h) DataCollection)" where
  "append_months model dates [] acc = Inr acc"
| "append_months model dates ((i_mon, alt_list) # rest) acc =
     bind (model i_mon alt_list) (\<lambda>(dir_norm_rad, dif_horiz_rad).
     bind (append_month dates (zip dir_norm_rad dif_horiz_rad) acc) (\<lambda>acc1.
       append_months model dates rest acc1))"

text \<open>
  The body that \<open>from_ashrae_revised_clear_sky\<close> and \<open>from_ashrae_clear_sky\<close> share word for
  word, apart from the call of the sky model. The series start empty, so the index
  \<open>i_dt\<close> of the source is the length of the series built so far.
\<close>

definition from_monthly_model ::
  "('loc, 't, 'sp, 'ap, 'h) collab \<Rightarrow> (nat \<Rightarrow> real list \<Rightarrow> error + (real list \<times> real list))
     \<Rightarrow> 'loc \<Rightarrow> int \<Rightarrow> bool option \<Rightarrow> error + ('loc, 't, 'h) Wea" where
  "from_monthly_model c model loc ts leap =
     bind (get_empty_data_collections c loc ts leap) (\<lambda>empty.
     let sp = set_is_leap_year c (Sunpath_from_location c loc) leap;
         dates = get_datetimes c ts leap
     in bind (bucket_altitudes c sp dates (replicate 12 [])) (\<lambda>altitudes.
        bind (append_months model dates (enumerate altitudes) empty)
          (\<lambda>(direct_norm_rad, diffuse_horiz_rad).
             Wea_init loc direct_norm_rad diffuse_horiz_rad (Some ts) leap)))"

definition from_ashrae_revised_clear_sky ::
  "('loc, 't, 'sp, 'ap, 'h) collab \<Rightarrow> ('loc, 't, 'h) readers \<Rightarrow> 'loc \<Rightarrow> real option list
     \<Rightarrow> real option list \<Rightarrow> int \<Rightarrow> bool option \<Rightarrow> error + ('loc, 't, 'h) Wea" where
  "from_ashrae_revised_clear_sky c r loc tau_beam tau_diffuse ts leap =
     from_monthly_model c
       (\<lambda>i_mon alt_list.
          bind (getitem tau_beam (int i_mon)) (\<lambda>tb.
          bind (getitem tau_diffuse (int i_mon)) (\<lambda>td.
            ashrae_revised_clear_sky r alt_list tb td)))
       loc ts leap"

definition from_ashrae_clear_sky ::
  "('loc, 't, 'sp, 'ap, 'h) collab \<Rightarrow> ('loc, 't, 'h) readers \<Rightarrow> 'loc \<Rightarrow> real
     \<Rightarrow> int \<Rightarrow> bool option \<Rightarrow> error + ('loc, 't, 'h) Wea" where
  "from_ashrae_clear_sky c r loc sky_clearness ts leap =
     from_monthly_model c
       (\<lambda>i_mon alt_list. ashrae_clear_sky r alt_list (int i_mon + 1) sky_clearness)
       loc ts leap"

text \<open>\<open>check_missing\<close>, the local function of \<open>from_stat_file\<close>.\<close>

fun first_missing :: "nat \<Rightarrow> real option list \<Rightarrow> nat option" where
  "first_missing i [] = None"
| "first_missing i (x # xs) = (if x = None then Some i else first_missing (Suc i) xs)"

definition check_missing :: "real option list \<Rightarrow> string \<Rightarrow> error + unit" where
  "check_missing opt_data data_name =
     (if opt_data = [] then Inl (ValueError ''Stat file contains no optical data.'')
      else case first_missing 0 opt_data of
             Some i \<Rightarrow> Inl (MissingOpticalDepth data_name i)
           | None \<Rightarrow> Inr ())"

definition from_stat_file ::
  "('loc, 't, 'sp, 'ap, 'h) collab \<Rightarrow> ('loc, 't, 'h) readers \<Rightarrow> string \<Rightarrow> int \<Rightarrow> bool option
     \<Rightarrow> error + ('loc, 't, 'h) Wea" where
  "from_stat_file c r statfile ts leap =
     bind (STAT r statfile) (\<lambda>stat.
     bind (check_missing (monthly_tau_beam stat) ''monthly_tau_beam'') (\<lambda>_.
     bind (check_missing (monthly_tau_diffuse stat) ''monthly_tau_diffuse'') (\<lambda>_.
       from_ashrae_revised_clear_sky c r (stat_location stat) (monthly_tau_beam stat)
         (monthly_tau_diffuse stat) ts leap)))"

subsection \<open>From the Zhang-Huang regression\<close>

text \<open>
  The list \<open>dry_bulb_t3_hrs\<close> that the loop over \<open>enumerate(cls._get_datetimes(...))\<close>
  builds: \<open>dry_bulb_temperature[count - (3 * timestep)]\<close> for every \<open>count\<close>.
\<close>

definition dry_bulb_t3_hrs ::
  "('loc, 't, 'sp, 'ap, 'h) collab \<Rightarrow> int \<Rightarrow> bool option \<Rightarrow> real list \<Rightarrow> error + real list" where
  "dry_bulb_t3_hrs c ts leap dry_bulb_temperature =
     mapM (\<lambda>(count, t_date). getitem dry_bulb_temperature (int count - 3 * ts))
       (enumerate (get_datetimes c ts leap))"

definition from_zhang_huang_solar ::
  "('loc, 't, 'sp, 'ap, 'h) collab \<Rightarrow> ('loc, 't, 'h) readers \<Rightarrow> 'loc \<Rightarrow> real list \<Rightarrow> real list
     \<Rightarrow> real list \<Rightarrow> real list \<Rightarrow> real list option \<Rightarrow> int \<Rightarrow> bool option \<Rightarrow> bool
     \<Rightarrow> error + ('loc, 't, 'h) Wea" where
  "from_zhang_huang_solar c r loc cloud_cover relative_humidity dry_bulb_temperature wind_speed
       atmospheric_pressure ts leap use_disc =
     (if \<not> (length cloud_cover = length relative_humidity
             \<and> length relative_humidity = length dry_bulb_temperature
             \<and> length dry_bulb_temperature = length wind_speed)
      then Inl (AssertionError (Msg ''lengths of input climate data must match.''))
      else if ts = 0 then Inl ZeroDivisionError
      else if real (length cloud_cover) / real_of_int ts \<noteq> real_of_int (hr_count leap)
      then Inl (AssertionError (Msg ''input climate data must be annual.''))
      else
        bind (case atmospheric_pressure of
                Some p \<Rightarrow>
                  if length p = length cloud_cover then Inr p
                  else Inl (AssertionError
                         (Msg ''length pf atmospheric_pressure must match the other input lists.''))
              | None \<Rightarrow> Inr (replicate (nat (hr_count leap * ts)) 101325)) (\<lambda>pressure.
        let sp = set_is_leap_year c (Sunpath_from_location c loc) leap;
            date_times = get_datetimes c ts leap;
            suns = map (calculate_sun_from_date_time c sp) date_times;
            altitudes = map altitude suns;
            doys = map (\<lambda>sun. dt_doy c (sun_datetime sun)) suns
        in bind (dry_bulb_t3_hrs c ts leap dry_bulb_temperature) (\<lambda>t3.
           bind (zhang_huang_solar_split r altitudes doys cloud_cover relative_humidity
                   dry_bulb_temperature t3 wind_speed pressure use_disc) (\<lambda>(dir_ir, diff_ir).
           bind (get_empty_data_collections c loc ts leap) (\<lambda>(dn, dh).
           let rows = zip dir_ir (zip diff_ir date_times)
           in Wea_init loc
                (append_all dn (map (\<lambda>(dni, dhi, t_date). dni_point dni t_date) rows))
                (append_all dh (map (\<lambda>(dni, dhi, t_date). dhi_point dhi t_date) rows))
                (Some ts) leap)))))"

subsection \<open>Derived quantities\<close>

definition radians :: "real \<Rightarrow> real" where
  "radians x = x * pi / 180"

definition derived_point :: "real \<Rightarrow> 't \<Rightarrow> string \<Rightarrow> 't DataPoint" where
  "derived_point v dt name = \<lparr>dp_value = v, dp_datetime = dt, dp_standard = ''SI'',
                              dp_nickname = name\<rparr>"

definition sunpath_of ::
  "('loc, 't, 'sp, 'ap, 'h) collab \<Rightarrow> ('loc, 't, 'h) Wea \<Rightarrow> 'sp" where
  "sunpath_of c self =
     set_is_leap_year c (Sunpath_from_location c (location self)) (is_leap_year self)"

definition global_horizontal_irradiance ::
  "('loc, 't, 'sp, 'ap, 'h) collab \<Rightarrow> ('loc, 't, 'h) Wea \<Rightarrow> error + ('t, 'h) DataCollection" where
  "global_horizontal_irradiance c self =
     bind (AnalysisPeriod c (timestep self) (is_leap_year self)) (\<lambda>analysis_period.
     bind (Header c analysis_period ''Global Horizontal Irradiance'' ''W/m2'' (location self))
       (\<lambda>header_ghr.
     let sp = sunpath_of c self
     in Inr \<lparr>dc_header = header_ghr,
             dc_data = map (\<lambda>(dnr, dhr).
                  let sun = calculate_sun_from_date_time c sp (dp_datetime dnr);
                      glob_h = dp_value dhr + dp_value dnr * sin (radians (altitude sun))
                  in derived_point glob_h (dp_datetime dnr) ''Global Horizontal Irradiance'')
               (zip (dc_data (direct_normal_irradiance self))
                    (dc_data (diffuse_horizontal_irradiance self)))\<rparr>))"

definition direct_horizontal_irradiance ::
  "('loc, 't, 'sp, 'ap, 'h) collab \<Rightarrow> ('loc, 't, 'h) Wea \<Rightarrow> error + ('t, 'h) DataCollection" where
  "direct_horizontal_irradiance c self =
     bind (AnalysisPeriod c (timestep self) (is_leap_year self)) (\<lambda>analysis_period.
     bind (Header c analysis_period ''Direct Horizontal Irradiance'' ''W/m2'' (location self))
       (\<lambda>header_dhr.
     let sp = sunpath_of c self
     in Inr \<lparr>dc_header = header_dhr,
             dc_data = map (\<lambda>dnr.
                  let sun = calculate_sun_from_date_time c sp (dp_datetime dnr);
                      dir_h = dp_value dnr * sin (radians (altitude sun))
                  in derived_point dir_h (dp_datetime dnr) ''Direct Horizontal Irradiance'')
               (dc_data (direct_normal_irradiance self))\<rparr>))"

text \<open>
  Modelled from the spec: \<open>Vector3\<close> and its method \<open>angle\<close> (ladybug/euclid.py) are not
  among the sources. The specification converts the surface normal and the sun vector from
  polar coordinates to unit 3-vectors and uses "the angle between sun and surface
  normal": the arc cosine of the scalar product divided by the product of the lengths.
  Both arguments of every call are results of \<open>pol2cart\<close>, which have length 1.
\<close>

type_synonym Vector3 = "real \<times> real \<times> real"

definition dot :: "Vector3 \<Rightarrow> Vector3 \<Rightarrow> real" where
  "dot = (\<lambda>(x1, y1, z1) (x2, y2, z2). x1 * x2 + y1 * y2 + z1 * z2)"

definition magnitude :: "Vector3 \<Rightarrow> real" where
  "magnitude = (\<lambda>(x, y, z). sqrt (x * x + y * y + z * z))"

definition angle :: "Vector3 \<Rightarrow> Vector3 \<Rightarrow> real" where
  "angle a b = arccos (dot a b / (magnitude a * magnitude b))"

definition pol2cart :: "real \<Rightarrow> real \<Rightarrow> Vector3" where
  "pol2cart phi theta =
     (let mult = cos theta in (sin phi * mult, cos phi * mult, sin theta))"

text \<open>The argument \<open>ground_reflectance\<close>: a number or a text.\<close>

datatype reflectance = Fraction real | Named string

definition albedos :: "string \<Rightarrow> real option" where
  "albedos = map_of [(''urban'', 0.18), (''grass'', 0.20), (''fresh grass'', 0.26),
     (''soil'', 0.17), (''sand'', 0.40), (''snow'', 0.65), (''fresh snow'', 0.75),
     (''asphalt'', 0.12), (''concrete'', 0.30), (''sea'', 0.06)]"

text \<open>The weight \<open>y\<close> as the anisotropic branch writes it (lines 687 and 688).\<close>

definition anisotropic_y :: "real \<Rightarrow> real" where
  "anisotropic_y vec_angle =
     max 0.45 (0.55 + (0.437 * cos vec_angle) + 0.313 * cos vec_angle * 0.313 * cos vec_angle)"

text \<open>
  The expression \<open>self.dhr\<close> of the anisotropic branch: the class \<open>Wea\<close> has no attribute,
  property or slot of that name, so reading it raises.
\<close>

definition self_dhr :: "('loc, 't, 'h) Wea \<Rightarrow> error + real" where
  "self_dhr self = Inl (AttributeError ''dhr'')"

text \<open>
  One pass of the loop of \<open>directional_irradiance\<close>: the samples appended to the total,
  direct, diffuse and reflected lists.
\<close>

definition surface_sample ::
  "('loc, 't, 'sp, 'ap, 'h) collab \<Rightarrow> ('loc, 't, 'h) Wea \<Rightarrow> 'sp \<Rightarrow> Vector3 \<Rightarrow> real \<Rightarrow> real \<Rightarrow> bool
     \<Rightarrow> 't DataPoint \<times> 't DataPoint
     \<Rightarrow> error + ('t DataPoint \<times> 't DataPoint \<times> 't DataPoint \<times> 't DataPoint)" where
  "surface_sample c self sp normal alt ground_reflectance isotrophic = (\<lambda>(dnr, dhr).
     let dt = dp_datetime dnr;
         sun = calculate_sun_from_date_time c sp dt;
         sun_vec = pol2cart (radians (azimuth sun)) (radians (altitude sun));
         vec_angle = angle sun_vec normal;
         srf_dir = (if altitude sun > 0 \<and> vec_angle < pi / 2
                    then dp_value dnr * cos vec_angle else 0)
     in bind (if isotrophic then Inr (dp_value dhr * ((sin (radians alt) / 2) + 0.5))
              else (let y = anisotropic_y vec_angle
                    in bind (self_dhr self) (\<lambda>d.
                         Inr (d * (y * sin (radians \<bar>90 - alt\<bar>) + cos (radians \<bar>90 - alt\<bar>))))))
          (\<lambda>srf_dif.
             let e_glob = dp_value dhr + dp_value dnr * cos (radians (90 - altitude sun));
                 srf_ref = e_glob * ground_reflectance * (0.5 - (sin (radians alt) / 2))
             in Inr (derived_point (srf_dir + srf_dif + srf_ref) dt ''Irradiance'',
                     derived_point srf_dir dt ''Irradiance'',
                     derived_point srf_dif dt ''Irradiance'',
                     derived_point srf_ref dt ''Irradiance'')))"

text \<open>
  \<open>directional_irradiance(altitude, azimuth, ground_reflectance, isotrophic)\<close> returns the
  lists of total, direct, diffuse and reflected irradiance, in this order.
\<close>

definition directional_irradiance ::
  "('loc, 't, 'sp, 'ap, 'h) collab \<Rightarrow> ('loc, 't, 'h) Wea \<Rightarrow> real \<Rightarrow> real \<Rightarrow> reflectance \<Rightarrow> bool
     \<Rightarrow> error + ('t DataPoint list \<times> 't DataPoint list \<times> 't DataPoint list \<times> 't DataPoint list)" where
  "directional_irradiance c self alt az ground_reflectance isotrophic =
     bind (case ground_reflectance of
             Fraction x \<Rightarrow> Inr x
           | Named name \<Rightarrow>
               (case albedos name of
                  Some a \<Rightarrow> Inr a
                | None \<Rightarrow> (case py_float c name of
                             Some x \<Rightarrow> Inr x
                           | None \<Rightarrow> Inl (ValueError name)))) (\<lambda>gr.
     let normal = pol2cart (radians az) (radians alt);
         sp = sunpath_of c self
     in bind (mapM (surface_sample c self sp normal alt gr isotrophic)
                (zip (dc_data (direct_normal_irradiance self))
                     (dc_data (diffuse_horizontal_irradiance self)))) (\<lambda>rows.
        Inr (map (\<lambda>(t, d, f, r). t) rows, map (\<lambda>(t, d, f, r). d) rows,
             map (\<lambda>(t, d, f, r). f) rows, map (\<lambda>(t, d, f, r). r) rows)))"

subsection \<open>Reading samples by hour of the year\<close>

definition hoys :: "('loc, 't, 'sp, 'ap, 'h) collab \<Rightarrow> ('loc, 't, 'h) Wea \<Rightarrow> real list" where
  "hoys c self = map (\<lambda>data. dt_hoy c (dp_datetime data)) (dc_data (direct_normal_irradiance self))"

text \<open>The builtin \<open>int\<close> on a number: truncation towards zero.\<close>

definition py_trunc :: "real \<Rightarrow> int" where
  "py_trunc x = (if 0 \<le> x then \<lfloor>x\<rfloor> else \<lceil>x\<rceil>)"

definition get_irradiance_values_for_hoy ::
  "('loc, 't, 'h) Wea \<Rightarrow> real \<Rightarrow> error + ('t DataPoint \<times> 't DataPoint)" where
  "get_irradiance_values_for_hoy self hoy =
     (let count = py_trunc (hoy * real_of_int (timestep self))
      in bind (getitem (dc_data (direct_normal_irradiance self)) count) (\<lambda>dir_rad.
         bind (getitem (dc_data (diffuse_horizontal_irradiance self)) count) (\<lambda>dif_rad.
         Inr (dir_rad, dif_rad))))"

subsection \<open>The structured representation\<close>

text \<open>
  The values of a JSON-like Python dictionary. The dictionary handed to \<open>from_json\<close> is a
  map from keys to such values; a dictionary inside a value is a list of its items.
\<close>

datatype jval =
    JNone
  | JBool bool
  | JInt int
  | JFloat real
  | JStr string
  | JList "jval list"
  | JDict "(string \<times> jval) list"

text \<open>Python's truth value, as \<open>or\<close> and \<open>if\<close> use it.\<close>

fun truthy :: "jval \<Rightarrow> bool" where
  "truthy JNone = False"
| "truthy (JBool b) = b"
| "truthy (JInt n) = (n \<noteq> 0)"
| "truthy (JFloat x) = (x \<noteq> 0)"
| "truthy (JStr s) = (s \<noteq> [])"
| "truthy (JList xs) = (xs \<noteq> [])"
| "truthy (JDict kvs) = (kvs \<noteq> [])"

definition dict_get :: "(string \<Rightarrow> jval option) \<Rightarrow> string \<Rightarrow> error + jval" where
  "dict_get data key = (case data key of None \<Rightarrow> Inl (KeyError key) | Some v \<Rightarrow> Inr v)"

text \<open>\<open>for key in keys: if key not in data: data[key] = None\<close>, on the caller's dictionary.\<close>

definition set_defaults :: "string list \<Rightarrow> (string \<Rightarrow> jval option) \<Rightarrow> (string \<Rightarrow> jval option)" where
  "set_defaults keys data =
     fold (\<lambda>key d. if d key = None then d(key \<mapsto> JNone) else d) keys data"

text \<open>
  The representations of a location and of a series belong to \<open>Location\<close> and
  \<open>DataCollection\<close>, which are not among the sources and are described nowhere: they are
  parameters.
\<close>

record ('loc, 't, 'h) json_collab =
  Location_to_json :: "'loc \<Rightarrow> jval"
  Location_from_json :: "jval \<Rightarrow> error + 'loc"
  DataCollection_to_json :: "('t, 'h) DataCollection \<Rightarrow> jval"
  DataCollection_from_json :: "jval \<Rightarrow> error + ('t, 'h) DataCollection"

definition leap_to_json :: "bool option \<Rightarrow> jval" where
  "leap_to_json leap = (case leap of None \<Rightarrow> JNone | Some b \<Rightarrow> JBool b)"

definition to_json ::
  "('loc, 't, 'h) json_collab \<Rightarrow> ('loc, 't, 'h) Wea \<Rightarrow> (string \<Rightarrow> jval option)" where
  "to_json j self = map_of
     [(''location'', Location_to_json j (location self)),
      (''direct_normal_irradiance'', DataCollection_to_json j (direct_normal_irradiance self)),
      (''diffuse_horizontal_irradiance'',
         DataCollection_to_json j (diffuse_horizontal_irradiance self)),
      (''timestep'', JInt (timestep self)),
      (''is_leap_year'', leap_to_json (is_leap_year self))]"

text \<open>
  The value under \<open>timestep\<close> as the constructor takes it: \<open>timestep or 1\<close> turns every
  false value into \<open>1\<close>, and the assertion \<open>isinstance(timestep, int)\<close> accepts integers and
  truth values (\<open>True\<close> is the integer \<open>1\<close>).
\<close>

definition timestep_arg :: "jval \<Rightarrow> error + int option" where
  "timestep_arg v =
     (if \<not> truthy v then Inr None
      else case v of
             JInt n \<Rightarrow> Inr (Some n)
           | JBool b \<Rightarrow> Inr (Some 1)
           | _ \<Rightarrow> Inl (AssertionError (Msg ''timestep must be an integer.'')))"

text \<open>
  The value under \<open>is_leap_year\<close> is documented as a boolean and may be \<open>None\<close>; the engine
  uses it through its truth value only, and a value of another type is kept as that truth
  value.
\<close>

definition leap_arg :: "jval \<Rightarrow> bool option" where
  "leap_arg v = (case v of JNone \<Rightarrow> None | JBool b \<Rightarrow> Some b | _ \<Rightarrow> Some (truthy v))"

definition required_keys :: "string list" where
  "required_keys = [''location'', ''direct_normal_irradiance'', ''diffuse_horizontal_irradiance'']"

definition optional_keys :: "string list" where
  "optional_keys = [''timestep'', ''is_leap_year'']"

text \<open>
  \<open>Wea.from_json(data)\<close> returns the caller's dictionary as the call leaves it, together
  with the engine or the exception.
\<close>

definition from_json ::
  "('loc, 't, 'h) json_collab \<Rightarrow> (string \<Rightarrow> jval option)
     \<Rightarrow> (string \<Rightarrow> jval option) \<times> (error + ('loc, 't, 'h) Wea)" where
  "from_json j data =
     (case filter (\<lambda>key. data key = None) required_keys of
        key # _ \<Rightarrow>
          (data, Inl (AssertionError (Msg (''Required key '' @ key @ '' is missing!''))))
      | [] \<Rightarrow>
          (let data1 = set_defaults optional_keys data
           in (data1,
               bind (dict_get data1 ''location'') (\<lambda>l.
               bind (Location_from_json j l) (\<lambda>loc.
               bind (dict_get data1 ''direct_normal_irradiance'') (\<lambda>dn.
               bind (DataCollection_from_json j dn) (\<lambda>dnr.
               bind (dict_get data1 ''diffuse_horizontal_irradiance'') (\<lambda>dh.
               bind (DataCollection_from_json j dh) (\<lambda>dhr.
               bind (dict_get data1 ''timestep'') (\<lambda>ts.
               bind (dict_get data1 ''is_leap_year'') (\<lambda>leap.
               bind (timestep_arg ts) (\<lambda>ts1.
                 Wea_init loc dnr dhr ts1 (leap_arg leap)))))))))))))"

subsection \<open>Writing the native file\<close>

text \<open>
  A line of the file is kept as the values that its format string receives: the header text
  is made from the location, a data line from the timestamp and the two samples. The state
  holds the files and, for every warning printed, the timestamp that the warning names.
\<close>

datatype ('loc, 't) line = Header_text 'loc | Data_line 't real real

datatype ('loc, 't) content = Wea_text "('loc, 't) line list" | Hrs_text "real list"

record ('loc, 't) world =
  files :: "string \<Rightarrow> ('loc, 't) content option"
  warnings :: "'t list"

text \<open>
  Modelled from the spec: \<open>futil.write_to_file\<close> (ladybug/futil.py) is not among the sources.
  The specification has the write operation fail as a whole when the target path is
  unwritable; so a write stores the text under the path, or fails when the path is not
  writable.
\<close>

definition write_to_file ::
  "(string \<Rightarrow> bool) \<Rightarrow> string \<Rightarrow> ('loc, 't) content \<Rightarrow> ('loc, 't) world
     \<Rightarrow> error + ('loc, 't) world" where
  "write_to_file writable path text w =
     (if writable path then Inr (w\<lparr>files := (files w)(path \<mapsto> text)\<rparr>) else Inl (IOError path))"

definition lower_char :: "char \<Rightarrow> char" where
  "lower_char ch =
     (let n = (of_char ch :: nat) in if 65 \<le> n \<and> n \<le> 90 then char_of (n + 32) else ch)"

definition lower :: "string \<Rightarrow> string" where
  "lower s = map lower_char s"

text \<open>
  The loop of the subset mode. The local variable \<open>dt\<close> is bound by the assignment
  \<open>dt = dir_rad.datetime\<close> that follows a successful lookup, and the handler of
  \<open>IndexError\<close> reads \<open>dt\<close> to format its warning; \<open>None\<close> is the unbound variable. The
  state of the loop is the list of lines, \<open>dt\<close> and the warnings printed.
\<close>

fun write_hoys ::
  "('loc, 't, 'h) Wea \<Rightarrow> real list \<Rightarrow> ('loc, 't) line list \<times> 't option \<times> 't list
     \<Rightarrow> error + (('loc, 't) line list \<times> 't option \<times> 't list)" where
  "write_hoys self [] st = Inr st"
| "write_hoys self (hoy # rest) (lines, dt, warned) =
     (case get_irradiance_values_for_hoy self hoy of
        Inl IndexError \<Rightarrow>
          (case dt of
             None \<Rightarrow> Inl (UnboundLocalError ''dt'')
           | Some d \<Rightarrow> write_hoys self rest (lines, dt, warned @ [d]))
      | Inl e \<Rightarrow> Inl e
      | Inr (dir_rad, dif_rad) \<Rightarrow>
          write_hoys self rest
            (lines @ [Data_line (dp_datetime dir_rad) (dp_value dir_rad) (dp_value dif_rad)],
             Some (dp_datetime dir_rad), warned))"

text \<open>
  \<open>Wea.write(file_path, hoys, write_hours)\<close>; \<open>hoys\<close> is \<open>None\<close> or a list, and \<open>not hoys\<close>
  holds for \<open>None\<close> and for the empty list. What the call has printed or written before an
  exception is not kept.
\<close>

definition write_wea ::
  "('loc, 't, 'sp, 'ap, 'h) collab \<Rightarrow> (string \<Rightarrow> bool) \<Rightarrow> ('loc, 't, 'h) Wea \<Rightarrow> string
     \<Rightarrow> real list option \<Rightarrow> bool \<Rightarrow> ('loc, 't) world \<Rightarrow> error + (string \<times> ('loc, 't) world)" where
  "write_wea c writable self file_path hoys_arg write_hours w =
     (let file_path = (if \<not> endswith (lower file_path) ''.wea'' then file_path @ ''.wea''
                       else file_path);
          full_wea = (hoys_arg = None \<or> hoys_arg = Some []);
          hoys1 = (case hoys_arg of None \<Rightarrow> hoys c self
                   | Some hs \<Rightarrow> if hs = [] then hoys c self else hs);
          lines = [Header_text (location self)]
      in bind (if full_wea
               then Inr (lines @ map (\<lambda>(dir_rad, dif_rad).
                             Data_line (dp_datetime dir_rad) (dp_value dir_rad) (dp_value dif_rad))
                           (zip (dc_data (direct_normal_irradiance self))
                                (dc_data (diffuse_horizontal_irradiance self))),
                         warnings w)
               else bind (write_hoys self hoys1 (lines, None, warnings w))
                      (\<lambda>(lines, dt, warned). Inr (lines, warned))) (\<lambda>(lines, warned).
         bind (write_to_file writable file_path (Wea_text lines) (w\<lparr>warnings := warned\<rparr>)) (\<lambda>w1.
         bind (if write_hours
               then write_to_file writable (take (length file_path - 4) file_path @ ''.hrs'')
                      (Hrs_text hoys1) w1
               else Inr w1) (\<lambda>w2.
         Inr (file_path, w2)))))"

section \<open>The header (ladybug/header.py)\<close>







text \<open>
  The call of the constructor as wea.py writes it, with the keywords \<open>analysis_period\<close>,
  \<open>data_type\<close> (a string), \<open>unit\<close> and \<open>location\<close>. The constructor is
  \<open>def __init__(self, data_type, unit=None, analysis_period=None, metadata=None)\<close>. Python
  binds the keywords of a call to the parameters before the body runs and raises \<open>TypeError\<close>
  for a keyword that names none of them, and \<open>location\<close> names none. Were every keyword a
  parameter, the first statement of the body, \<open>assert hasattr(data_type, 'isDataType')\<close>,
  would fail on the string. Either way the call returns no header.
\<close>

definition Header_parameters :: "string list" where
  "Header_parameters = [''data_type'', ''unit'', ''analysis_period'', ''metadata'']"

definition Header_of_wea :: "'ap \<Rightarrow> string \<Rightarrow> string \<Rightarrow> 'loc \<Rightarrow> error + 'h" where
  "Header_of_wea analysis_period data_type unit_name loc =
     (case filter (\<lambda>key. key \<notin> set Header_parameters)
             [''analysis_period'', ''data_type'', ''unit'', ''location''] of
        key # _ \<Rightarrow> Inl (TypeError key)
      | [] \<Rightarrow> Inl (AssertionError (Msg ''data_type must be a Ladybug DataType.'')))"

section \<open>The annual-length invariant\<close>

text \<open>
  The invariant of the specification: each of the two series of an engine has
  \<open>timestep * hr_count(is_leap_year)\<close> samples.
\<close>

definition annual :: "('loc, 't, 'h) Wea \<Rightarrow> bool" where
  "annual self =
     (int (length (dc_data (direct_normal_irradiance self)))
        = timestep self * hr_count (is_leap_year self)
      \<and> int (length (dc_data (diffuse_horizontal_irradiance self)))
        = timestep self * hr_count (is_leap_year self))"

section \<open>A sample instance of the collaborators\<close>

text \<open>
  The concrete runs below use these collaborators. \<open>Header\<close> is the call as header.py
  serves it. A location is its name, a timestamp is the minute of the year and an analysis
  period the pair of its arguments; the header of a series that a reader supplies is the
  name of its data type. The sample sun stands at altitude 30 from 6:00 to 18:00 and at
  altitude \<open>-30\<close> for the rest of the day.
\<close>

definition demo_sun :: "real \<Rightarrow> real Sun" where
  "demo_sun t =
     \<lparr>altitude = (if 360 \<le> \<lfloor>t\<rfloor> mod 1440 \<and> \<lfloor>t\<rfloor> mod 1440 < 1080 then 30 else - 30),
      azimuth = 180, sun_datetime = t\<rparr>"

definition demo_collab :: "(string, real, string, int \<times> bool option, string) collab" where
  "demo_collab =
     \<lparr>AnalysisPeriod = (\<lambda>ts leap. Inr (ts, leap)),
      Header = Header_of_wea,
      from_moy = (\<lambda>m leap. m),
      dt_month = (\<lambda>t. 1 + \<lfloor>t / 43920\<rfloor>),
      dt_doy = (\<lambda>t. 1 + \<lfloor>t / 1440\<rfloor>),
      dt_hoy = (\<lambda>t. t / 60),
      add_minute = (\<lambda>t m. t + real_of_int m),
      Sunpath_from_location = (\<lambda>loc. loc),
      set_is_leap_year = (\<lambda>sp leap. sp),
      calculate_sun_from_date_time = (\<lambda>sp t. demo_sun t),
      py_float = (\<lambda>s. if s = ''0'' then Some 0 else None)\<rparr>"

text \<open>
  The hourly engine of a common year whose direct-normal samples are all \<open>dn\<close> and whose
  diffuse-horizontal samples are all \<open>dh\<close>, each at the middle of its hour. The constructor
  returns it when it is given the two series.
\<close>

definition demo_wea :: "real \<Rightarrow> real \<Rightarrow> (string, real, string) Wea" where
  "demo_wea dn dh =
     \<lparr>location = ''demo'',
      direct_normal_irradiance =
        \<lparr>dc_header = ''Direct Normal Irradiance'',
         dc_data = map (\<lambda>count. dni_point dn (60 * real count + 30)) [0..<8760]\<rparr>,
      diffuse_horizontal_irradiance =
        \<lparr>dc_header = ''Diffuse Horizontal Irradiance'',
         dc_data = map (\<lambda>count. dhi_point dh (60 * real count + 30)) [0..<8760]\<rparr>,
      timestep = 1, is_leap_year = Some False\<rparr>"

text \<open>
  A sample native file, a sample weather file with two hourly series of the constant 50
  that interpolate to the constant 50, a sample summary file and sample sky models that give
  800 and 100 when the sun is up.
\<close>

definition demo_sky :: "real list \<Rightarrow> real list \<times> real list" where
  "demo_sky alts = (map (\<lambda>a. if 0 < a then 800 else 0) alts, map (\<lambda>a. if 0 < a then 100 else 0) alts)"

definition demo_hourly :: "string \<Rightarrow> (real, string) DataCollection" where
  "demo_hourly name =
     \<lparr>dc_header = name,
      dc_data = map (\<lambda>count. \<lparr>dp_value = 50, dp_datetime = 60 * real count,
                                dp_standard = ''SI'', dp_nickname = name\<rparr>) [0..<8760]\<rparr>"

definition demo_readers :: "(string, real, string) readers" where
  "demo_readers =
     \<lparr>read_lines = (\<lambda>path. if path = ''demo.wea''
         then Some ([''place demo'', ''latitude 0'', ''longitude 0'', ''time_zone 0'',
                     ''site_elevation 0'', ''weather_data_file_units 1'']
                    @ replicate 8760 ''1 1 0.500 0 0'')
         else None),
      py_int = (\<lambda>s. if s = ''0'' then Some 0 else None),
      Location_new = (\<lambda>city lat lon tz elevation. Inr city),
      EPW = (\<lambda>path. Inr \<lparr>epw_location = ''demo'',
                           direct_normal_radiation = demo_hourly ''Direct Normal Radiation'',
                           diffuse_horizontal_radiation = demo_hourly ''Diffuse Horizontal Radiation''\<rparr>),
      set_data_type_and_unit = (\<lambda>h name u. Inr name),
      interpolate_data = (\<lambda>dc ts. Inr (map (\<lambda>count.
           \<lparr>dp_value = 50, dp_datetime = 60 * real count / real_of_int ts,
            dp_standard = ''SI'', dp_nickname = dc_header dc\<rparr>) [0..<nat (8760 * ts)])),
      STAT = (\<lambda>path. Inr \<lparr>stat_location = ''demo'', monthly_tau_beam = replicate 12 (Some 0.3),
                            monthly_tau_diffuse = replicate 12 (Some 2)\<rparr>),
      ashrae_revised_clear_sky = (\<lambda>alts tb td. Inr (demo_sky alts)),
      ashrae_clear_sky = (\<lambda>alts month clearness. Inr (demo_sky alts)),
      zhang_huang_solar_split = (\<lambda>alts doys cc rh dbt t3 ws ap use_disc. Inr (demo_sky alts))\<rparr>"

text \<open>
  A sample representation: a location is written as its name, a series as the dictionary of
  its header and of the list of its samples.
\<close>

definition point_to_json :: "real DataPoint \<Rightarrow> jval" where
  "point_to_json p =
     JList [JFloat (dp_value p), JFloat (dp_datetime p), JStr (dp_standard p), JStr (dp_nickname p)]"

fun point_from_json :: "jval \<Rightarrow> error + real DataPoint" where
  "point_from_json (JList [JFloat v, JFloat t, JStr s, JStr n]) =
     Inr \<lparr>dp_value = v, dp_datetime = t, dp_standard = s, dp_nickname = n\<rparr>"
| "point_from_json _ = Inl (ValueError ''sample'')"

fun series_from_json :: "jval \<Rightarrow> error + (real, string) DataCollection" where
  "series_from_json (JDict [(k1, JStr h), (k2, JList ps)]) =
     (if k1 = ''header'' \<and> k2 = ''data''
      then bind (mapM point_from_json ps) (\<lambda>data. Inr \<lparr>dc_header = h, dc_data = data\<rparr>)
      else Inl (ValueError ''series''))"
| "series_from_json _ = Inl (ValueError ''series'')"

definition demo_json :: "(string, real, string) json_collab" where
  "demo_json =
     \<lparr>Location_to_json = JStr,
      Location_from_json = (\<lambda>v. case v of JStr s \<Rightarrow> Inr s | _ \<Rightarrow> Inl (ValueError ''location'')),
      DataCollection_to_json = (\<lambda>dc. JDict [(''header'', JStr (dc_header dc)),
                                              (''data'', JList (map point_to_json (dc_data dc)))]),
      DataCollection_from_json = series_from_json\<rparr>"


section \<open>Auxiliary facts\<close>

lemma bind_Inr_iff: "bind m f = Inr y \<longleftrightarrow> (\<exists>x. m = Inr x \<and> f x = Inr y)"
  by (cases m) (simp_all add: bind_def)

lemma bind_Inr [simp]: "bind (Inr x) f = f x"
  by (simp add: bind_def)

lemma bind_Inl [simp]: "bind (Inl e) f = Inl e"
  by (simp add: bind_def)


lemma mapM_length: "mapM f xs = Inr ys \<Longrightarrow> length ys = length xs"
  by (induction xs arbitrary: ys) (auto simp: bind_Inr_iff)

lemma quotient_eq_iff:
  assumes "ts \<noteq> 0"
  shows "real n / real_of_int ts = real_of_int h \<longleftrightarrow> int n = ts * h"
proof -
  have "real n / real_of_int ts = real_of_int h \<longleftrightarrow> real n = real_of_int h * real_of_int ts"
    using assms by (simp add: divide_eq_eq)
  also have "\<dots> \<longleftrightarrow> real_of_int (int n) = real_of_int (ts * h)"
    by (simp add: mult.commute)
  also have "\<dots> \<longleftrightarrow> int n = ts * h"
    by (simp only: of_int_eq_iff)
  finally show ?thesis .
qed

lemma hr_count_pos: "0 < hr_count leap"
  by (simp add: hr_count_def)


section \<open>The setters and the constructor\<close>

lemma set_dni_Inr:
  "set_direct_normal_irradiance self d = Inr w \<longleftrightarrow>
     timestep self \<noteq> 0 \<and> int (length (dc_data d)) = timestep self * hr_count (is_leap_year self)
     \<and> w = self\<lparr>direct_normal_irradiance := d\<rparr>"
  by (auto simp: set_direct_normal_irradiance_def quotient_eq_iff)

lemma set_dhi_Inr:
  "set_diffuse_horizontal_irradiance self d = Inr w \<longleftrightarrow>
     timestep self \<noteq> 0 \<and> int (length (dc_data d)) = timestep self * hr_count (is_leap_year self)
     \<and> w = self\<lparr>diffuse_horizontal_irradiance := d\<rparr>"
  by (auto simp: set_diffuse_horizontal_irradiance_def quotient_eq_iff)

lemma set_dni_Inl:
  "int (length (dc_data d)) \<noteq> timestep self * hr_count (is_leap_year self)
     \<Longrightarrow> \<exists>e. set_direct_normal_irradiance self d = Inl e"
  by (cases "set_direct_normal_irradiance self d") (auto simp: set_dni_Inr)

lemma set_dhi_Inl:
  "int (length (dc_data d)) \<noteq> timestep self * hr_count (is_leap_year self)
     \<Longrightarrow> \<exists>e. set_diffuse_horizontal_irradiance self d = Inl e"
  by (cases "set_diffuse_horizontal_irradiance self d") (auto simp: set_dhi_Inr)

lemma Wea_init_Inr:
  "Wea_init loc dnr dhr ts leap = Inr w \<longleftrightarrow>
     (let n = (case ts of None \<Rightarrow> 1 | Some k \<Rightarrow> if k = 0 then 1 else k)
      in int (length (dc_data dnr)) = n * hr_count leap
         \<and> int (length (dc_data dhr)) = n * hr_count leap
         \<and> w = \<lparr>location = loc, direct_normal_irradiance = dnr,
                 diffuse_horizontal_irradiance = dhr, timestep = n, is_leap_year = leap\<rparr>)"
  by (auto simp: Wea_init_def Let_def bind_Inr_iff set_dni_Inr set_dhi_Inr split: option.splits)

lemma Wea_init_annual: "Wea_init loc dnr dhr ts leap = Inr w \<Longrightarrow> annual w"
  by (auto simp: Wea_init_Inr Let_def annual_def)

lemma Wea_init_timestep: "Wea_init loc dnr dhr ts leap = Inr w \<Longrightarrow> timestep w \<noteq> 0"
  by (auto simp: Wea_init_Inr Let_def split: option.splits)

section \<open>Every construction path ends in the constructor\<close>

lemma from_values_annual: "from_values c loc dni dhi ts leap = Inr w \<Longrightarrow> annual w"
  by (auto simp: from_values_def Let_def bind_Inr_iff split: if_splits dest: Wea_init_annual)

lemma from_file_annual: "from_file c r path ts leap = Inr w \<Longrightarrow> annual w"
  by (auto simp: from_file_def Let_def bind_Inr_iff split: if_splits option.splits
           dest: from_values_annual)

lemma from_epw_file_annual: "from_epw_file c r path ts = Inr w \<Longrightarrow> annual w"
  by (auto simp: from_epw_file_def Let_def bind_Inr_iff split: if_splits dest: Wea_init_annual)

lemma from_monthly_model_annual: "from_monthly_model c m loc ts leap = Inr w \<Longrightarrow> annual w"
  by (auto simp: from_monthly_model_def Let_def bind_Inr_iff dest: Wea_init_annual)

lemma from_ashrae_revised_annual:
  "from_ashrae_revised_clear_sky c r loc tb td ts leap = Inr w \<Longrightarrow> annual w"
  by (auto simp: from_ashrae_revised_clear_sky_def dest: from_monthly_model_annual)

lemma from_ashrae_annual: "from_ashrae_clear_sky c r loc k ts leap = Inr w \<Longrightarrow> annual w"
  by (auto simp: from_ashrae_clear_sky_def dest: from_monthly_model_annual)

lemma from_stat_file_annual: "from_stat_file c r path ts leap = Inr w \<Longrightarrow> annual w"
  by (auto simp: from_stat_file_def bind_Inr_iff dest: from_ashrae_revised_annual)

lemma from_zhang_huang_annual:
  "from_zhang_huang_solar c r loc cc rh dbt ws ap ts leap ud = Inr w \<Longrightarrow> annual w"
  by (auto simp: from_zhang_huang_solar_def Let_def bind_Inr_iff split: if_splits
           dest: Wea_init_annual)

lemma from_json_annual: "snd (from_json j data) = Inr w \<Longrightarrow> annual w"
  by (auto simp: from_json_def Let_def bind_Inr_iff split: list.splits dest: Wea_init_annual)

section \<open>The constructor of header.py under the calls of wea.py\<close>

lemma Header_of_wea_raises: "Header_of_wea ap name u loc = Inl (TypeError ''location'')"
  by (simp add: Header_of_wea_def Header_parameters_def)

lemma get_empty_never_returns:
  assumes "Header c = Header_of_wea"
  shows "get_empty_data_collections c loc ts leap \<noteq> Inr x"
  by (cases "AnalysisPeriod c ts leap")
     (simp_all add: get_empty_data_collections_def assms Header_of_wea_raises)

lemma get_empty_raises:
  assumes "Header c = Header_of_wea" and "AnalysisPeriod c ts leap = Inr ap"
  shows "get_empty_data_collections c loc ts leap = Inl (TypeError ''location'')"
  by (simp add: get_empty_data_collections_def assms Header_of_wea_raises)

text \<open>
  With this constructor the paths that build their series from empty collections return no
  engine, and the two derived series that build a header of their own return nothing.
\<close>

lemma from_values_never_returns:
  assumes "Header c = Header_of_wea"
  shows "from_values c loc dni dhi ts leap \<noteq> Inr w"
  using get_empty_never_returns [OF assms]
  by (auto simp: from_values_def Let_def bind_Inr_iff)

lemma from_file_never_returns:
  assumes "Header c = Header_of_wea"
  shows "from_file c r path ts leap \<noteq> Inr w"
  using from_values_never_returns [OF assms]
  by (auto simp: from_file_def Let_def bind_Inr_iff split: option.splits)

lemma from_epw_file_never_returns:
  assumes "Header c = Header_of_wea" and "ts \<noteq> 1"
  shows "from_epw_file c r path ts \<noteq> Inr w"
  using get_empty_never_returns [OF assms(1)] assms(2)
  by (auto simp: from_epw_file_def Let_def bind_Inr_iff)

lemma from_monthly_model_never_returns:
  assumes "Header c = Header_of_wea"
  shows "from_monthly_model c m loc ts leap \<noteq> Inr w"
  using get_empty_never_returns [OF assms]
  by (auto simp: from_monthly_model_def Let_def bind_Inr_iff)

lemma from_stat_file_never_returns:
  assumes "Header c = Header_of_wea"
  shows "from_stat_file c r path ts leap \<noteq> Inr w"
  using from_monthly_model_never_returns [OF assms]
  by (auto simp: from_stat_file_def from_ashrae_revised_clear_sky_def bind_Inr_iff)

lemma from_zhang_huang_never_returns:
  assumes "Header c = Header_of_wea"
  shows "from_zhang_huang_solar c r loc cc rh dbt ws ap ts leap ud \<noteq> Inr w"
  using get_empty_never_returns [OF assms]
  by (auto simp: from_zhang_huang_solar_def Let_def bind_Inr_iff split: if_splits)

lemma derived_series_raise:
  assumes "Header c = Header_of_wea" and "AnalysisPeriod c (timestep self) (is_leap_year self) = Inr ap"
  shows "global_horizontal_irradiance c self = Inl (TypeError ''location'')"
    and "direct_horizontal_irradiance c self = Inl (TypeError ''location'')"
  by (simp_all add: global_horizontal_irradiance_def direct_horizontal_irradiance_def assms
        Header_of_wea_raises)

section \<open>The sample engine\<close>

lemma demo_Header: "Header demo_collab = Header_of_wea"
  by (simp add: demo_collab_def)

lemma demo_AnalysisPeriod: "AnalysisPeriod demo_collab ts leap = Inr (ts, leap)"
  by (simp add: demo_collab_def)

lemma demo_init:
  "Wea_init ''demo'' (direct_normal_irradiance (demo_wea dn dh))
     (diffuse_horizontal_irradiance (demo_wea dn dh)) (Some 1) (Some False) = Inr (demo_wea dn dh)"
  by (simp add: Wea_init_Inr demo_wea_def hr_count_def)

lemma demo_annual: "annual (demo_wea dn dh)"
  by (simp add: annual_def demo_wea_def hr_count_def)

lemma demo_rows:
  "zip (dc_data (direct_normal_irradiance (demo_wea dn dh)))
       (dc_data (diffuse_horizontal_irradiance (demo_wea dn dh)))
     = map (\<lambda>count. (dni_point dn (60 * real count + 30), dhi_point dh (60 * real count + 30)))
         [0..<8760]"
  by (simp add: demo_wea_def zip_map_map zip_same_conv_map)

section \<open>The weather-file path\<close>

text \<open>The step of the loop over the interpolated samples when the sun is down.\<close>

lemma sun_up_pair_down:
  assumes "altitude (calculate_sun_from_date_time c sp (dp_datetime e_beam)) \<le> 0"
  shows "sun_up_pair c sp (e_beam, e_diff)
           = (dni_point 0 (dp_datetime e_beam), dhi_point 0 (dp_datetime e_diff))"
  using assms by (simp add: sun_up_pair_def Let_def)

lemma demo_epw_hourly:
  "\<exists>w. from_epw_file demo_collab demo_readers ''demo.epw'' 1 = Inr w"
  by (simp add: from_epw_file_def demo_readers_def Let_def Wea_init_Inr shift_30_def
        demo_hourly_def hr_count_def)

lemma demo_epw_interpolated:
  "from_epw_file demo_collab demo_readers ''demo.epw'' 2 = Inl (TypeError ''location'')"
  by (simp add: from_epw_file_def demo_readers_def Let_def
        get_empty_raises [OF demo_Header demo_AnalysisPeriod])

section \<open>The lookup of the Zhang-Huang path\<close>



section \<open>The sample representation\<close>

lemma point_round_trip: "point_from_json (point_to_json p) = Inr p"
  by (simp add: point_to_json_def)

lemma series_round_trip:
  "DataCollection_from_json demo_json (DataCollection_to_json demo_json dc) = Inr dc"
proof -
  have "mapM point_from_json (map point_to_json ps) = Inr ps" for ps
    by (induction ps) (simp_all add: point_round_trip)
  then show ?thesis by (simp add: demo_json_def)
qed

lemma location_round_trip:
  "Location_from_json demo_json (Location_to_json demo_json l) = Inr l"
  by (simp add: demo_json_def)

section \<open>The loop of directional_irradiance\<close>

lemma mapM_total:
  assumes "\<And>x. x \<in> set xs \<Longrightarrow> \<exists>y. f x = Inr y"
  shows "\<exists>ys. mapM f xs = Inr ys \<and> length ys = length xs"
  using assms
proof (induction xs)
  case Nil
  then show ?case by simp
next
  case (Cons x xs)
  from Cons.prems obtain y where y: "f x = Inr y" by auto
  from Cons obtain ys where "mapM f xs = Inr ys" "length ys = length xs" by auto
  with y show ?case by simp
qed

lemma surface_sample_isotropic:
  "\<exists>y. surface_sample c self sp normal alt gr True p = Inr y"
  by (cases p) (simp add: surface_sample_def Let_def)

lemma directional_isotropic_lengths:
  "\<exists>tot dir dif ref. directional_irradiance c self alt az (Fraction x) True = Inr (tot, dir, dif, ref)
     \<and> length tot = length (zip (dc_data (direct_normal_irradiance self))
                                  (dc_data (diffuse_horizontal_irradiance self)))
     \<and> length dir = length tot \<and> length dif = length tot \<and> length ref = length tot"
proof -
  have "\<exists>rows. mapM (surface_sample c self (sunpath_of c self) (pol2cart (radians az) (radians alt))
                        alt x True)
                (zip (dc_data (direct_normal_irradiance self))
                     (dc_data (diffuse_horizontal_irradiance self))) = Inr rows
          \<and> length rows = length (zip (dc_data (direct_normal_irradiance self))
                                       (dc_data (diffuse_horizontal_irradiance self)))"
    by (rule mapM_total) (rule surface_sample_isotropic)
  then show ?thesis
    by (auto simp: directional_irradiance_def Let_def)
qed

lemma mapM_anisotropic:
  "rows \<noteq> [] \<Longrightarrow> mapM (surface_sample c self sp normal alt gr False) rows = Inl (AttributeError ''dhr'')"
  by (cases rows) (auto simp: surface_sample_def self_dhr_def Let_def)

section \<open>Lookups in the sample engine\<close>

lemma demo_lookup_missing:
  "get_irradiance_values_for_hoy (demo_wea dn dh) 8760 = Inl IndexError"
  by (simp add: get_irradiance_values_for_hoy_def py_trunc_def demo_wea_def getitem_def)

lemma demo_lookup_0:
  "get_irradiance_values_for_hoy (demo_wea dn dh) 0 = Inr (dni_point dn 30, dhi_point dh 30)"
  by (simp add: get_irradiance_values_for_hoy_def py_trunc_def demo_wea_def getitem_def)

section \<open>The dictionary of an engine\<close>

lemma set_defaults_eq:
  "set_defaults keys data = (\<lambda>k. if k \<in> set keys \<and> data k = None then Some JNone else data k)"
proof (induction keys arbitrary: data)
  case Nil
  then show ?case by (simp add: set_defaults_def)
next
  case (Cons key keys)
  have "set_defaults (key # keys) data
          = set_defaults keys (if data key = None then data(key \<mapsto> JNone) else data)"
    by (simp add: set_defaults_def)
  then show ?case
    by (auto simp: Cons.IH fun_eq_iff)
qed

lemma to_json_required: "filter (\<lambda>key. to_json j self key = None) required_keys = []"
  by (simp add: to_json_def required_keys_def)

lemma to_json_defaults: "set_defaults optional_keys (to_json j self) = to_json j self"
  by (auto simp: set_defaults_eq to_json_def optional_keys_def fun_eq_iff)

lemma leap_arg_to_json: "leap_arg (leap_to_json leap) = leap"
  by (cases leap) (simp_all add: leap_arg_def leap_to_json_def)

lemma from_json_to_json:
  assumes "timestep self \<noteq> 0"
    and "Location_from_json j (Location_to_json j (location self)) = Inr loc"
    and "DataCollection_from_json j (DataCollection_to_json j (direct_normal_irradiance self)) = Inr dn"
    and "DataCollection_from_json j (DataCollection_to_json j (diffuse_horizontal_irradiance self)) = Inr dh"
  shows "from_json j (to_json j self)
           = (to_json j self, Wea_init loc dn dh (Some (timestep self)) (is_leap_year self))"
proof -
  have get: "dict_get (to_json j self) ''location'' = Inr (Location_to_json j (location self))"
    "dict_get (to_json j self) ''direct_normal_irradiance''
       = Inr (DataCollection_to_json j (direct_normal_irradiance self))"
    "dict_get (to_json j self) ''diffuse_horizontal_irradiance''
       = Inr (DataCollection_to_json j (diffuse_horizontal_irradiance self))"
    "dict_get (to_json j self) ''timestep'' = Inr (JInt (timestep self))"
    "dict_get (to_json j self) ''is_leap_year'' = Inr (leap_to_json (is_leap_year self))"
    by (simp_all add: dict_get_def to_json_def)
  have ts: "timestep_arg (JInt (timestep self)) = Inr (Some (timestep self))"
    using assms(1) by (simp add: timestep_arg_def)
  show ?thesis
    by (simp add: from_json_def to_json_required to_json_defaults Let_def get assms ts leap_arg_to_json)
qed



section \<open>The claims\<close>

text \<open>
  C1. Every engine that a construction path returns (the constructor itself,
  \<open>from_values\<close>, \<open>from_json\<close>, \<open>from_file\<close>, \<open>from_epw_file\<close>, \<open>from_stat_file\<close>,
  \<open>from_ashrae_revised_clear_sky\<close>, \<open>from_ashrae_clear_sky\<close>, \<open>from_zhang_huang_solar\<close>) has
  two series of exactly \<open>timestep * hr_count(is_leap_year)\<close> samples each; an assignment
  through either setter keeps this, and an assignment of a series of another length fails.
\<close>

theorem annual_length_invariant:
  "(Wea_init loc dnr dhr ts0 leap = Inr w \<longrightarrow> annual w)
   \<and> (from_values c loc dni dhi ts leap = Inr w \<longrightarrow> annual w)
   \<and> (snd (from_json j data) = Inr w \<longrightarrow> annual w)
   \<and> (from_file c r path ts leap = Inr w \<longrightarrow> annual w)
   \<and> (from_epw_file c r path ts = Inr w \<longrightarrow> annual w)
   \<and> (from_stat_file c r path ts leap = Inr w \<longrightarrow> annual w)
   \<and> (from_ashrae_revised_clear_sky c r loc tau_beam tau_diffuse ts leap = Inr w \<longrightarrow> annual w)
   \<and> (from_ashrae_clear_sky c r loc sky_clearness ts leap = Inr w \<longrightarrow> annual w)
   \<and> (from_zhang_huang_solar c r loc cc rh dbt ws ap ts leap use_disc = Inr w \<longrightarrow> annual w)
   \<and> (annual w0 \<and> set_direct_normal_irradiance w0 d = Inr w \<longrightarrow> annual w)
   \<and> (annual w0 \<and> set_diffuse_horizontal_irradiance w0 d = Inr w \<longrightarrow> annual w)
   \<and> (int (length (dc_data d)) \<noteq> timestep w0 * hr_count (is_leap_year w0) \<longrightarrow>
        (\<exists>e. set_direct_normal_irradiance w0 d = Inl e)
        \<and> (\<exists>e. set_diffuse_horizontal_irradiance w0 d = Inl e))"
proof (intro conjI impI)
  show "annual w" if "Wea_init loc dnr dhr ts0 leap = Inr w"
    using that by (rule Wea_init_annual)
  show "annual w" if "from_values c loc dni dhi ts leap = Inr w"
    using that by (rule from_values_annual)
  show "annual w" if "snd (from_json j data) = Inr w"
    using that by (rule from_json_annual)
  show "annual w" if "from_file c r path ts leap = Inr w"
    using that by (rule from_file_annual)
  show "annual w" if "from_epw_file c r path ts = Inr w"
    using that by (rule from_epw_file_annual)
  show "annual w" if "from_stat_file c r path ts leap = Inr w"
    using that by (rule from_stat_file_annual)
  show "annual w" if "from_ashrae_revised_clear_sky c r loc tau_beam tau_diffuse ts leap = Inr w"
    using that by (rule from_ashrae_revised_annual)
  show "annual w" if "from_ashrae_clear_sky c r loc sky_clearness ts leap = Inr w"
    using that by (rule from_ashrae_annual)
  show "annual w" if "from_zhang_huang_solar c r loc cc rh dbt ws ap ts leap use_disc = Inr w"
    using that by (rule from_zhang_huang_annual)
  show "annual w" if "annual w0 \<and> set_direct_normal_irradiance w0 d = Inr w"
    using that by (auto simp: set_dni_Inr annual_def)
  show "annual w" if "annual w0 \<and> set_diffuse_horizontal_irradiance w0 d = Inr w"
    using that by (auto simp: set_dhi_Inr annual_def)
  show "\<exists>e. set_direct_normal_irradiance w0 d = Inl e"
    if "int (length (dc_data d)) \<noteq> timestep w0 * hr_count (is_leap_year w0)"
    using that by (rule set_dni_Inl)
  show "\<exists>e. set_diffuse_horizontal_irradiance w0 d = Inl e"
    if "int (length (dc_data d)) \<noteq> timestep w0 * hr_count (is_leap_year w0)"
    using that by (rule set_dhi_Inl)
qed

theorem annual_length_invariant_witness:
  "(\<exists>w. Wea_init ''demo'' (direct_normal_irradiance (demo_wea 1 2))
           (diffuse_horizontal_irradiance (demo_wea 1 2)) (Some 1) (Some False) = Inr w \<and> annual w)
   \<and> (\<exists>w. snd (from_json demo_json (to_json demo_json (demo_wea 1 2))) = Inr w \<and> annual w)
   \<and> (\<exists>w. from_epw_file demo_collab demo_readers ''demo.epw'' 1 = Inr w \<and> annual w)
   \<and> (\<exists>w. annual (demo_wea 1 2)
           \<and> set_direct_normal_irradiance (demo_wea 1 2) (direct_normal_irradiance (demo_wea 3 4))
               = Inr w \<and> annual w)
   \<and> (\<exists>w. annual (demo_wea 1 2)
           \<and> set_diffuse_horizontal_irradiance (demo_wea 1 2)
                (diffuse_horizontal_irradiance (demo_wea 3 4)) = Inr w \<and> annual w)
   \<and> (int (length (dc_data \<lparr>dc_header = ''Direct Normal Irradiance'',
                              dc_data = [dni_point 0 (30 :: real)]\<rparr>))
         \<noteq> timestep (demo_wea 1 2) * hr_count (is_leap_year (demo_wea 1 2))
       \<and> (\<exists>e. set_direct_normal_irradiance (demo_wea 1 2)
                 \<lparr>dc_header = ''Direct Normal Irradiance'', dc_data = [dni_point 0 30]\<rparr> = Inl e)
       \<and> (\<exists>e. set_diffuse_horizontal_irradiance (demo_wea 1 2)
                 \<lparr>dc_header = ''Direct Normal Irradiance'', dc_data = [dni_point 0 30]\<rparr> = Inl e))"
proof -
  have json: "\<exists>w. snd (from_json demo_json (to_json demo_json (demo_wea 1 2))) = Inr w"
    using demo_init [of 1 2]
    by (simp add: from_json_to_json [OF _ location_round_trip series_round_trip series_round_trip]
          demo_wea_def)
  have set: "\<exists>w. set_direct_normal_irradiance (demo_wea 1 2)
                        (direct_normal_irradiance (demo_wea 3 4)) = Inr w"
    "\<exists>w. set_diffuse_horizontal_irradiance (demo_wea 1 2)
            (diffuse_horizontal_irradiance (demo_wea 3 4)) = Inr w"
    by (simp_all add: set_dni_Inr set_dhi_Inr demo_wea_def hr_count_def)
  have short: "int (length (dc_data \<lparr>dc_header = ''Direct Normal Irradiance'',
                              dc_data = [dni_point 0 (30 :: real)]\<rparr>))
         \<noteq> timestep (demo_wea 1 2) * hr_count (is_leap_year (demo_wea 1 2))"
    by (simp add: demo_wea_def hr_count_def)
  note i1 = annual_length_invariant [THEN conjunct1, THEN mp]
  note i3 = annual_length_invariant [THEN conjunct2, THEN conjunct2, THEN conjunct1, THEN mp]
  note i5 = annual_length_invariant [THEN conjunct2, THEN conjunct2, THEN conjunct2,
    THEN conjunct2, THEN conjunct1, THEN mp]
  note i10 = annual_length_invariant [THEN conjunct2, THEN conjunct2, THEN conjunct2,
    THEN conjunct2, THEN conjunct2, THEN conjunct2, THEN conjunct2, THEN conjunct2,
    THEN conjunct2, THEN conjunct1, THEN mp]
  note i11 = annual_length_invariant [THEN conjunct2, THEN conjunct2, THEN conjunct2,
    THEN conjunct2, THEN conjunct2, THEN conjunct2, THEN conjunct2, THEN conjunct2,
    THEN conjunct2, THEN conjunct2, THEN conjunct1, THEN mp]
  note i12 = annual_length_invariant [THEN conjunct2, THEN conjunct2, THEN conjunct2,
    THEN conjunct2, THEN conjunct2, THEN conjunct2, THEN conjunct2, THEN conjunct2,
    THEN conjunct2, THEN conjunct2, THEN conjunct2, THEN mp]
  obtain w3 where w3: "snd (from_json demo_json (to_json demo_json (demo_wea 1 2))) = Inr w3"
    using json by blast
  obtain w5 where w5: "from_epw_file demo_collab demo_readers ''demo.epw'' 1 = Inr w5"
    using demo_epw_hourly by blast
  obtain w10 where w10: "set_direct_normal_irradiance (demo_wea 1 2)
                        (direct_normal_irradiance (demo_wea 3 4)) = Inr w10"
    using set(1) by blast
  obtain w11 where w11: "set_diffuse_horizontal_irradiance (demo_wea 1 2)
            (diffuse_horizontal_irradiance (demo_wea 3 4)) = Inr w11"
    using set(2) by blast
  have a10: "annual (demo_wea 1 2) \<and> set_direct_normal_irradiance (demo_wea 1 2)
                        (direct_normal_irradiance (demo_wea 3 4)) = Inr w10"
    and a11: "annual (demo_wea 1 2) \<and> set_diffuse_horizontal_irradiance (demo_wea 1 2)
            (diffuse_horizontal_irradiance (demo_wea 3 4)) = Inr w11"
    using w10 w11 demo_annual [of 1 2] by simp_all
  show ?thesis
  proof (intro conjI)
    show "\<exists>w. Wea_init ''demo'' (direct_normal_irradiance (demo_wea 1 2))
           (diffuse_horizontal_irradiance (demo_wea 1 2)) (Some 1) (Some False) = Inr w \<and> annual w"
      using demo_init [of 1 2] i1 [OF demo_init [of 1 2]] by blast
    show "\<exists>w. snd (from_json demo_json (to_json demo_json (demo_wea 1 2))) = Inr w \<and> annual w"
      using w3 i3 [OF w3] by blast
    show "\<exists>w. from_epw_file demo_collab demo_readers ''demo.epw'' 1 = Inr w \<and> annual w"
      using w5 i5 [OF w5] by blast
    show "\<exists>w. annual (demo_wea 1 2)
           \<and> set_direct_normal_irradiance (demo_wea 1 2) (direct_normal_irradiance (demo_wea 3 4))
               = Inr w \<and> annual w"
      using a10 i10 [OF a10] by blast
    show "\<exists>w. annual (demo_wea 1 2)
           \<and> set_diffuse_horizontal_irradiance (demo_wea 1 2)
                (diffuse_horizontal_irradiance (demo_wea 3 4)) = Inr w \<and> annual w"
      using a11 i11 [OF a11] by blast
    show "int (length (dc_data \<lparr>dc_header = ''Direct Normal Irradiance'',
                              dc_data = [dni_point 0 (30 :: real)]\<rparr>))
         \<noteq> timestep (demo_wea 1 2) * hr_count (is_leap_year (demo_wea 1 2))"
      by (rule short)
    show "\<exists>e. set_direct_normal_irradiance (demo_wea 1 2)
                 \<lparr>dc_header = ''Direct Normal Irradiance'', dc_data = [dni_point 0 30]\<rparr> = Inl e"
      using i12 [OF short] by (rule conjunct1)
    show "\<exists>e. set_diffuse_horizontal_irradiance (demo_wea 1 2)
                 \<lparr>dc_header = ''Direct Normal Irradiance'', dc_data = [dni_point 0 30]\<rparr> = Inl e"
      using i12 [OF short] by (rule conjunct2)
  qed
qed

text \<open>
  C2. The claim reads: in \<open>from_epw_file\<close> with a timestep greater than 1, every interpolated
  sample at which the sun altitude is at most 0 is stored as 0 in both series of the returned
  engine. The loop is written to do so: its step replaces both samples by 0 when the sun is
  down, as it does for two samples of value 50 at minute 0 of the year. The call never reaches
  the loop: the branch first builds the two empty series through
  \<open>Header(..., location=location)\<close>, which the constructor of header.py rejects, so that for the
  sample weather file, as for any other, \<open>from_epw_file\<close> with timestep 2 raises \<open>TypeError\<close>
  and returns no engine.
\<close>

theorem epw_interpolated_raises:
  "from_epw_file demo_collab demo_readers ''demo.epw'' 2 = Inl (TypeError ''location'')
   \<and> altitude (calculate_sun_from_date_time demo_collab ''demo'' 0) = - 30
   \<and> sun_up_pair demo_collab ''demo''
        (\<lparr>dp_value = 50, dp_datetime = 0, dp_standard = ''SI'',
          dp_nickname = ''Direct Normal Irradiance''\<rparr>,
         \<lparr>dp_value = 50, dp_datetime = 0, dp_standard = ''SI'',
          dp_nickname = ''Diffuse Horizontal Irradiance''\<rparr>)
       = (dni_point 0 0, dhi_point 0 0)"
proof -
  have night: "altitude (calculate_sun_from_date_time demo_collab ''demo'' 0) = - 30"
    by (simp add: demo_collab_def demo_sun_def)
  then have "altitude (calculate_sun_from_date_time demo_collab ''demo''
      (dp_datetime \<lparr>dp_value = 50, dp_datetime = 0 :: real, dp_standard = ''SI'',
          dp_nickname = ''Direct Normal Irradiance''\<rparr>)) \<le> 0"
    by simp
  from sun_up_pair_down [OF this] night demo_epw_interpolated show ?thesis
    by simp
qed




text \<open>
  C4. The claim reads: \<open>from_values\<close> fails with the annual-length error whenever the length
  of either sequence differs from \<open>timestep * hr_count(is_leap_year)\<close>, the message states
  the expected count, and it suggests a timestep exactly when the actual length is a multiple
  of that expected count. With a timestep of 2 and 8760 values the expected count is 17520,
  of which 8760 is no multiple, and the message carries the suggestion of timestep 1.
\<close>

theorem from_values_hint_counterexample:
  "from_values demo_collab ''demo'' (replicate 8760 0) (replicate 8760 0) 2 (Some False)
     = Inl (AssertionError (AnnualLength
         \<lparr>msg_timestep = 2, msg_expected = 17520, msg_series = ''direct normal irradiance'',
          msg_provided = 8760, msg_hint = Some 1\<rparr>))
   \<and> (8760 :: int) mod 17520 \<noteq> 0"
  by (simp add: from_values_def Let_def hr_count_def)

text \<open>
  C4, amended. For a timestep other than 0, \<open>from_values\<close> fails with the annual-length
  assertion whenever the length of either sequence differs from
  \<open>timestep * hr_count(is_leap_year)\<close>, and the message states the timestep and this expected
  count. When the direct-normal sequence has the wrong length, the message names it with its
  length, and it suggests a timestep \<open>k\<close> exactly when that length is \<open>k * hr_count(is_leap_year)\<close>,
  a multiple of the hour count and not of the expected count.
\<close>

theorem from_values_length_error:
  assumes "ts \<noteq> 0"
    and "int (length dni) \<noteq> ts * hr_count leap \<or> int (length dhi) \<noteq> ts * hr_count leap"
  shows "\<exists>m. from_values c loc dni dhi ts leap = Inl (AssertionError (AnnualLength m))
           \<and> msg_timestep m = ts \<and> msg_expected m = ts * hr_count leap
           \<and> (int (length dni) \<noteq> ts * hr_count leap \<longrightarrow>
                msg_series m = ''direct normal irradiance'' \<and> msg_provided m = length dni
                \<and> (\<forall>k. msg_hint m = Some k \<longleftrightarrow> int (length dni) = k * hr_count leap))"
proof -
  have hint: "(if int (length dni) mod hr_count leap = 0
               then Some (int (length dni) div hr_count leap) else None) = Some k
              \<longleftrightarrow> int (length dni) = k * hr_count leap" for k
    using hr_count_pos [of leap] by (auto simp: mod_eq_0_iff_dvd)
  show ?thesis
    using assms hr_count_pos [of leap]
    by (auto simp: from_values_def Let_def quotient_eq_iff hint)
qed

theorem from_values_length_error_witness:
  "(1 :: int) \<noteq> 0
   \<and> int (length (replicate 17520 (0 :: real))) \<noteq> 1 * hr_count (Some False)
   \<and> (\<exists>m. from_values demo_collab ''demo'' (replicate 17520 0) (replicate 17520 0) 1 (Some False)
              = Inl (AssertionError (AnnualLength m))
            \<and> msg_expected m = 8760 \<and> msg_provided m = 17520 \<and> msg_hint m = Some 2)"
proof -
  have h1: "(1 :: int) \<noteq> 0" by simp
  have h2: "int (length (replicate 17520 (0 :: real))) \<noteq> 1 * hr_count (Some False)"
    by (simp add: hr_count_def)
  then have h: "int (length (replicate 17520 (0 :: real))) \<noteq> 1 * hr_count (Some False)
       \<or> int (length (replicate 17520 (0 :: real))) \<noteq> 1 * hr_count (Some False)"
    by simp
  from from_values_length_error [OF h1 h, of demo_collab "''demo''"] obtain m where
    m: "from_values demo_collab ''demo'' (replicate 17520 0) (replicate 17520 0) 1 (Some False)
          = Inl (AssertionError (AnnualLength m))"
      "msg_expected m = 1 * hr_count (Some False)"
    and s: "int (length (replicate 17520 (0 :: real))) \<noteq> 1 * hr_count (Some False) \<longrightarrow>
              msg_series m = ''direct normal irradiance''
              \<and> msg_provided m = length (replicate 17520 (0 :: real))
              \<and> (\<forall>k. msg_hint m = Some k
                     \<longleftrightarrow> int (length (replicate 17520 (0 :: real))) = k * hr_count (Some False))"
    by blast
  from s have "msg_provided m = 17520" "msg_hint m = Some 2"
    by (simp_all add: hr_count_def)
  with m h1 h2 show ?thesis by (simp add: hr_count_def)
qed

text \<open>
  C5. The claim reads: for any engine, \<open>directional_irradiance(altitude=90)\<close> has a total
  series equal to \<open>global_horizontal_irradiance\<close>, a direct series equal to
  \<open>direct_horizontal_irradiance\<close> and a reflected series of zeros. On the sample engine
  \<open>directional_irradiance(90)\<close> returns its four series of 8760 samples, but the two properties
  it is compared with each build a header through \<open>Header(..., location=self.location)\<close>,
  which the constructor of header.py rejects: both raise \<open>TypeError\<close>, for this engine as for
  any other, and there is no series to compare.
\<close>

theorem horizontal_series_raise:
  "global_horizontal_irradiance demo_collab (demo_wea 100 20) = Inl (TypeError ''location'')
   \<and> direct_horizontal_irradiance demo_collab (demo_wea 100 20) = Inl (TypeError ''location'')
   \<and> bind (directional_irradiance demo_collab (demo_wea 100 20) 90 180 (Fraction 0.2) True)
        (\<lambda>(tot, dir, dif, ref). Inr (length tot, length dir, length dif, length ref))
       = Inr (8760, 8760, 8760, 8760)"
proof -
  obtain tot dir dif ref where
    run: "directional_irradiance demo_collab (demo_wea 100 20) 90 180 (Fraction 0.2) True
            = Inr (tot, dir, dif, ref)"
    and len: "length tot = length (zip (dc_data (direct_normal_irradiance (demo_wea 100 20)))
                                       (dc_data (diffuse_horizontal_irradiance (demo_wea 100 20))))"
      "length dir = length tot" "length dif = length tot" "length ref = length tot"
    using directional_isotropic_lengths by blast
  have "length tot = 8760"
    unfolding len(1) demo_rows by simp
  with len run have "bind (directional_irradiance demo_collab (demo_wea 100 20) 90 180 (Fraction 0.2) True)
        (\<lambda>(tot, dir, dif, ref). Inr (length tot, length dir, length dif, length ref))
       = Inr (8760, 8760, 8760, 8760)"
    by simp
  with derived_series_raise [OF demo_Header demo_AnalysisPeriod] show ?thesis
    by simp
qed

text \<open>
  C6. The structured representation round-trips: for an engine with the annual lengths and
  a timestep other than 0, as every construction path returns it, \<open>from_json(to_json(x))\<close>
  leaves the dictionary as it is and returns an engine with the same representation. The
  representations of the location and of the two series are those of \<open>Location\<close> and
  \<open>DataCollection\<close>; the theorem takes their own round trip on the three components of the
  engine as its hypotheses.
\<close>

theorem json_round_trip:
  assumes inv: "annual self" and ts: "timestep self \<noteq> 0"
    and loc: "Location_from_json j (Location_to_json j (location self)) = Inr loc"
      "Location_to_json j loc = Location_to_json j (location self)"
    and dn: "DataCollection_from_json j (DataCollection_to_json j (direct_normal_irradiance self)) = Inr dn"
      "DataCollection_to_json j dn = DataCollection_to_json j (direct_normal_irradiance self)"
      "length (dc_data dn) = length (dc_data (direct_normal_irradiance self))"
    and dh: "DataCollection_from_json j (DataCollection_to_json j (diffuse_horizontal_irradiance self)) = Inr dh"
      "DataCollection_to_json j dh = DataCollection_to_json j (diffuse_horizontal_irradiance self)"
      "length (dc_data dh) = length (dc_data (diffuse_horizontal_irradiance self))"
  shows "fst (from_json j (to_json j self)) = to_json j self
       \<and> (\<exists>w. snd (from_json j (to_json j self)) = Inr w \<and> to_json j w = to_json j self)"
proof -
  let ?w = "\<lparr>location = loc, direct_normal_irradiance = dn, diffuse_horizontal_irradiance = dh,
             timestep = timestep self, is_leap_year = is_leap_year self\<rparr>"
  have "Wea_init loc dn dh (Some (timestep self)) (is_leap_year self) = Inr ?w"
    using inv ts by (simp add: Wea_init_Inr annual_def dn(3) dh(3))
  moreover have "to_json j ?w = to_json j self"
    by (simp add: to_json_def loc(2) dn(2) dh(2))
  ultimately show ?thesis
    by (simp add: from_json_to_json [OF ts loc(1) dn(1) dh(1)])
qed

theorem json_round_trip_witness:
  "annual (demo_wea 100 20) \<and> timestep (demo_wea 100 20) \<noteq> 0
   \<and> Location_from_json demo_json (Location_to_json demo_json (location (demo_wea 100 20)))
       = Inr (location (demo_wea 100 20))
   \<and> DataCollection_from_json demo_json
        (DataCollection_to_json demo_json (direct_normal_irradiance (demo_wea 100 20)))
       = Inr (direct_normal_irradiance (demo_wea 100 20))
   \<and> DataCollection_from_json demo_json
        (DataCollection_to_json demo_json (diffuse_horizontal_irradiance (demo_wea 100 20)))
       = Inr (diffuse_horizontal_irradiance (demo_wea 100 20))
   \<and> fst (from_json demo_json (to_json demo_json (demo_wea 100 20)))
       = to_json demo_json (demo_wea 100 20)
   \<and> (\<exists>w. snd (from_json demo_json (to_json demo_json (demo_wea 100 20))) = Inr w
           \<and> to_json demo_json w = to_json demo_json (demo_wea 100 20))"
proof -
  have ts: "timestep (demo_wea 100 20) \<noteq> 0"
    by (simp add: demo_wea_def)
  from json_round_trip [OF demo_annual ts location_round_trip refl series_round_trip refl refl
      series_round_trip refl refl]
  show ?thesis
    using demo_annual [of 100 20] ts location_round_trip series_round_trip by blast
qed

text \<open>
  C7. The claim reads: Celsius to Fahrenheit applies \<open>c * 9 / 5 + 32\<close>, Celsius to Kelvin adds
  273.15, and \<open>convert([0], 'F', 'C') = [32.0]\<close>, \<open>convert([100], 'C', 'F') = [212.0]\<close>,
  \<open>convert([0], 'K', 'C') = [-273.15]\<close>. The signature is \<open>to_unit(values, unit, from_unit)\<close>:
  the second argument is the target unit. So \<open>to_unit([100], 'C', 'F')\<close> takes 100 degrees
  Fahrenheit to Celsius and \<open>to_unit([0], 'K', 'C')\<close> takes 0 degrees Celsius to Kelvin.
\<close>

theorem to_unit_counterexample:
  "to_unit [100] ''C'' ''F'' = Inr [340 / 9] \<and> to_unit [100] ''C'' ''F'' \<noteq> Inr [212]
   \<and> to_unit [0] ''K'' ''C'' = Inr [273.15] \<and> to_unit [0] ''K'' ''C'' \<noteq> Inr [- 273.15]"
  by (simp add: to_unit_def to_unit_base_def units_def converter_def C_to_K_def F_to_C_def)

text \<open>
  C7, amended. Converting to Fahrenheit from Celsius applies \<open>c * 9 / 5 + 32\<close> to every value
  and converting to Kelvin from Celsius adds 273.15 to every value; with the target unit as
  the second argument, \<open>to_unit([0], 'F', 'C') = [32]\<close>, \<open>to_unit([100], 'F', 'C') = [212]\<close> and
  \<open>to_unit([0], 'C', 'K') = [-273.15]\<close>.
\<close>

theorem to_unit_formulas:
  "to_unit vs ''F'' ''C'' = Inr (map (\<lambda>c. c * 9 / 5 + 32) vs)
   \<and> to_unit vs ''K'' ''C'' = Inr (map (\<lambda>c. c + 273.15) vs)
   \<and> to_unit [0] ''F'' ''C'' = Inr [32]
   \<and> to_unit [100] ''F'' ''C'' = Inr [212]
   \<and> to_unit [0] ''C'' ''K'' = Inr [- 273.15]"
  by (simp add: to_unit_def to_unit_base_def units_def converter_def C_to_F_def C_to_K_def
        K_to_C_def)

text \<open>
  C8. The claim gives the anisotropic branch the weight
  \<open>y = max(0.45, 0.55 + 0.437 * cos(angle) + 0.313 * cos(angle)^2)\<close> on the diffuse
  irradiance. The code multiplies the factor 0.313 in twice, so that at the angle 0 its \<open>y\<close> is
  1.084969 where the formula gives 1.3, and it then reads \<open>self.dhr\<close>, which does not exist:
  on the sample engine the call with \<open>isotrophic=False\<close> ends in an \<open>AttributeError\<close> at the
  first sample and returns no diffuse value.
\<close>

theorem anisotropic_branch_raises:
  "directional_irradiance demo_collab (demo_wea 100 20) 90 180 (Fraction 0.2) False
     = Inl (AttributeError ''dhr'')
   \<and> anisotropic_y 0 = 1.084969
   \<and> max 0.45 (0.55 + 0.437 * cos 0 + 0.313 * (cos 0)\<^sup>2) = (1.3 :: real)"
proof -
  have "zip (dc_data (direct_normal_irradiance (demo_wea 100 20)))
            (dc_data (diffuse_horizontal_irradiance (demo_wea 100 20))) \<noteq> []"
    by (simp add: demo_rows)
  then show ?thesis
    by (simp add: directional_irradiance_def Let_def mapM_anisotropic anisotropic_y_def)
qed

text \<open>
  C9. The claim reads: in the subset mode of \<open>write\<close> an hour without a sample is skipped with
  a warning and the write completes, also when the very first requested hour is missing. On
  the sample engine, whose hours of the year end before 8760, the request for the single
  hour 8760 ends in an \<open>UnboundLocalError\<close>: the handler formats \<open>dt\<close>, which no earlier pass
  has bound. When hour 0 is requested before hour 8760, the write completes with one data
  line and one warning, which names the timestamp of hour 0.
\<close>

theorem write_first_hour_missing:
  "write_wea demo_collab (\<lambda>path. True) (demo_wea 100 20) ''demo.wea'' (Some [8760]) False
     \<lparr>files = Map.empty, warnings = []\<rparr> = Inl (UnboundLocalError ''dt'')
   \<and> map_sum id (\<lambda>(path, w). (path, files w path, warnings w))
       (write_wea demo_collab (\<lambda>path. True) (demo_wea 100 20) ''demo.wea'' (Some [0, 8760]) False
          \<lparr>files = Map.empty, warnings = []\<rparr>)
     = Inr (''demo.wea'', Some (Wea_text [Header_text ''demo'', Data_line 30 100 20]), [30])"
proof -
  have e: "endswith (lower ''demo.wea'') ''.wea''"
    by (simp add: endswith_def lower_def lower_char_def)
  have l: "location (demo_wea 100 20) = ''demo''"
    by (simp add: demo_wea_def)
  show ?thesis
    by (simp add: write_wea_def Let_def e l demo_lookup_missing demo_lookup_0 write_to_file_def
          dni_point_def dhi_point_def)
qed




end
